theory Spec2Isabelle
  imports
    Complex_Main
    "HOL-Library.Char_ord"
    "HOL-Library.List_Lexorder"
    "HOL-Library.Multiset"
    "HOL-Library.Product_Lexorder"
begin

section \<open>Data model: cells, rows and data frames\<close>

text \<open>
  The program of \<^verbatim>\<open>maps_sio_archive_search.py\<close> is a pipeline of pandas data-frame
  transformations.  A cell of a frame is a text, a float or the missing value.

  The program never does arithmetic on a float: it compares floats, takes minima and
  maxima, and prints them with \<^verbatim>\<open>str\<close>.  A finite float is therefore represented by the
  decimal number that Python prints for it (\<^verbatim>\<open>repr\<close> round-trips, so this representation
  is injective and keeps the order of the floats).  \<open>NaN\<close> is the missing value.
\<close>

datatype cell = Str string | Flt rat | NaN

datatype error = KeyError string | KeyErrorLabels "string list" | TypeError | RuntimeError string

type_synonym row = "string \<rightharpoonup> cell"

record dataframe =
  columns :: "string list"
  rows :: "row list"

text \<open>\<^verbatim>\<open>pd.DataFrame()\<close>, \<^verbatim>\<open>len(df)\<close> and \<^verbatim>\<open>df.empty\<close> (true when either axis has length 0).\<close>

definition empty_frame :: dataframe where
  "empty_frame = \<lparr>columns = [], rows = []\<rparr>"

definition len :: "dataframe \<Rightarrow> nat" where
  "len df = length (rows df)"

definition is_empty :: "dataframe \<Rightarrow> bool" where
  "is_empty df = (List.null (columns df) \<or> List.null (rows df))"

text \<open>The value of a row in a column; a row that has no entry there reads as missing.\<close>

definition cell_at :: "row \<Rightarrow> string \<Rightarrow> cell" where
  "cell_at r c = (case r c of Some v \<Rightarrow> v | None \<Rightarrow> NaN)"

text \<open>\<^verbatim>\<open>df[c]\<close>: the column as a series, \<^verbatim>\<open>KeyError\<close> when the frame has no such column.\<close>

definition getitem :: "dataframe \<Rightarrow> string \<Rightarrow> error + cell list" where
  "getitem df c =
     (if c \<in> set (columns df) then Inr (map (\<lambda>r. cell_at r c) (rows df))
      else Inl (KeyError c))"

text \<open>
  \<^verbatim>\<open>df[c] = v\<close> for a scalar \<open>v\<close>, and \<^verbatim>\<open>df[c] = df[d]\<close>: an existing column is overwritten
  in place, a new one is appended after the others.
\<close>

definition add_column :: "string list \<Rightarrow> string \<Rightarrow> string list" where
  "add_column cols c = (if c \<in> set cols then cols else cols @ [c])"

definition assign :: "dataframe \<Rightarrow> string \<Rightarrow> cell \<Rightarrow> dataframe" where
  "assign df c v =
     \<lparr>columns = add_column (columns df) c, rows = map (\<lambda>r. r(c \<mapsto> v)) (rows df)\<rparr>"

definition copy_column :: "dataframe \<Rightarrow> string \<Rightarrow> string \<Rightarrow> dataframe" where
  "copy_column df c d =
     \<lparr>columns = add_column (columns df) c, rows = map (\<lambda>r. r(c \<mapsto> cell_at r d)) (rows df)\<rparr>"

text \<open>A frame is well formed when every row has exactly the frame's columns.\<close>

definition wf_frame :: "dataframe \<Rightarrow> bool" where
  "wf_frame df = (\<forall>r \<in> set (rows df). dom r = set (columns df))"

section \<open>Field harmonizer\<close>

text \<open>
  \<^verbatim>\<open>harmonize_columns\<close>: the resolution and band fall-backs, the loop over the two
  mandatory frequency columns (the first absent one is reported), and the dataset-group
  identifier.
\<close>

definition harmonize_columns :: "dataframe \<Rightarrow> error + dataframe" where
  "harmonize_columns df0 =
     (let df1 = (if ''ang_res_arcsec'' \<notin> set (columns df0)
                 then (if ''best_ang_res'' \<in> set (columns df0)
                       then copy_column df0 ''ang_res_arcsec'' ''best_ang_res''
                       else assign df0 ''ang_res_arcsec'' NaN)
                 else df0);
          df2 = (if ''band_list'' \<notin> set (columns df1) \<and> ''band'' \<in> set (columns df1)
                 then copy_column df1 ''band_list'' ''band''
                 else df1)
      in case find (\<lambda>col. col \<notin> set (columns df2)) [''min_freq_GHz'', ''max_freq_GHz''] of
           Some col \<Rightarrow> Inl (KeyError (''Missing required ObsCore column: '' @ col))
         | None \<Rightarrow>
             if ''member_ous_uid'' \<in> set (columns df2)
             then Inr (copy_column df2 ''MOUS_ID'' ''member_ous_uid'')
             else if ''member_ous_id'' \<in> set (columns df2)
             then Inr (copy_column df2 ''MOUS_ID'' ''member_ous_id'')
             else Inl (KeyError
               ''ObsCore table missing MOUS identifier (member_ous_uid / member_ous_id).''))"

section \<open>Transition matcher\<close>

text \<open>The transition table, in the order in which the dictionary literal lists it.\<close>

definition SIO_V0_TRANSITIONS_GHZ :: "(string \<times> rat) list" where
  "SIO_V0_TRANSITIONS_GHZ =
     [(''J=1-0'',    43.423864),
      (''J=2-1'',    86.846960),
      (''J=3-2'',   130.268610),
      (''J=4-3'',   173.688310),
      (''J=5-4'',   217.104980),
      (''J=6-5'',   260.518200),
      (''J=7-6'',   303.927030),
      (''J=8-7'',   347.331000),
      (''J=9-8'',   390.728730),
      (''J=10-9'',  434.120450),
      (''J=11-10'', 477.506120),
      (''J=12-11'', 520.885480),
      (''J=13-12'', 564.258560),
      (''J=14-13'', 607.625260),
      (''J=15-14'', 650.985560),
      (''J=16-15'', 694.339440),
      (''J=17-16'', 737.686780),
      (''J=18-17'', 781.027470),
      (''J=19-18'', 824.361490),
      (''J=20-19'', 867.688720)]"

text \<open>
  \<^verbatim>\<open>series < nu\<close> and \<^verbatim>\<open>series > nu\<close> for a float \<open>nu\<close>: element-wise, false on a missing
  value, \<^verbatim>\<open>TypeError\<close> when the series holds a text.
\<close>

fun is_Str :: "cell \<Rightarrow> bool" where
  "is_Str (Str s) = True"
| "is_Str (Flt a) = False"
| "is_Str NaN = False"

fun cell_lt :: "cell \<Rightarrow> rat \<Rightarrow> bool" where
  "cell_lt (Flt a) nu = (a < nu)"
| "cell_lt (Str s) nu = False"
| "cell_lt NaN nu = False"

fun cell_gt :: "cell \<Rightarrow> rat \<Rightarrow> bool" where
  "cell_gt (Flt a) nu = (a > nu)"
| "cell_gt (Str s) nu = False"
| "cell_gt NaN nu = False"

definition series_lt :: "cell list \<Rightarrow> rat \<Rightarrow> error + bool list" where
  "series_lt s nu =
     (if list_ex is_Str s then Inl TypeError else Inr (map (\<lambda>c. cell_lt c nu) s))"

definition series_gt :: "cell list \<Rightarrow> rat \<Rightarrow> error + bool list" where
  "series_gt s nu =
     (if list_ex is_Str s then Inl TypeError else Inr (map (\<lambda>c. cell_gt c nu) s))"

text \<open>\<^verbatim>\<open>df[mask]\<close>: the rows at which the mask is true, in their order.\<close>

definition boolean_index :: "dataframe \<Rightarrow> bool list \<Rightarrow> dataframe" where
  "boolean_index df msk =
     \<lparr>columns = columns df, rows = map fst (filter snd (zip (rows df) msk))\<rparr>"

text \<open>
  \<^verbatim>\<open>pd.concat(frames, ignore_index=True)\<close>: the columns are the union of the frames'
  columns in order of first appearance, the rows follow each other in the order of the
  frames, and a row is given the missing value in each column that its frame lacks.
  (The program calls it on a non-empty list only.)
\<close>

definition unique :: "'a list \<Rightarrow> 'a list" where
  "unique xs = rev (remdups (rev xs))"

definition reindex_row :: "string list \<Rightarrow> row \<Rightarrow> row" where
  "reindex_row cols r = (\<lambda>c. if c \<in> set cols then Some (cell_at r c) else None)"

definition pd_concat :: "dataframe list \<Rightarrow> dataframe" where
  "pd_concat dfs =
     (let cols = unique (concat (map columns dfs))
      in \<lparr>columns = cols, rows = concat (map (\<lambda>df. map (reindex_row cols) (rows df)) dfs)\<rparr>)"

text \<open>
  The loop of \<^verbatim>\<open>find_sio_spw_matches\<close> over the items of the table; \<open>matches\<close> is the
  list the loop appends to.
\<close>

fun match_loop :: "dataframe \<Rightarrow> (string \<times> rat) list \<Rightarrow> dataframe list \<Rightarrow> error + dataframe list" where
  "match_loop obs_df [] matches = Inr matches"
| "match_loop obs_df ((tr, nu) # items) matches =
     (case getitem obs_df ''min_freq_GHz'' of Inl e \<Rightarrow> Inl e | Inr mins \<Rightarrow>
      case series_lt mins nu of Inl e \<Rightarrow> Inl e | Inr lo \<Rightarrow>
      case getitem obs_df ''max_freq_GHz'' of Inl e \<Rightarrow> Inl e | Inr maxs \<Rightarrow>
      case series_gt maxs nu of Inl e \<Rightarrow> Inl e | Inr hi \<Rightarrow>
        let sel = boolean_index obs_df (map2 (\<and>) lo hi)
        in if len sel \<noteq> 0
           then match_loop obs_df items
                  (matches @ [assign (assign sel ''SiO_transition'' (Str tr))
                                ''SiO_freq_GHz'' (Flt nu)])
           else match_loop obs_df items matches)"

definition find_sio_spw_matches :: "dataframe \<Rightarrow> error + dataframe" where
  "find_sio_spw_matches obs_df =
     (case match_loop obs_df SIO_V0_TRANSITIONS_GHZ [] of Inl e \<Rightarrow> Inl e | Inr matches \<Rightarrow>
        if List.null matches then Inr empty_frame
        else let all_matches = pd_concat matches
             in case getitem all_matches ''Source'' of Inl e \<Rightarrow> Inl e
                | Inr counted \<Rightarrow> Inr all_matches)"

section \<open>Library operations used by the aggregators\<close>

text \<open>
  \<^verbatim>\<open>str\<close> of a float, on the decimal that represents it.  Python prints a float
  positionally when \<open>1e-4 \<le> |x| < 1e16\<close> (and when it is zero): the integer part, a point,
  and the digits of the fraction, \<open>0\<close> when there is none.  Outside that range it prints
  the significant digits with a point after the first one, followed by \<open>e\<close>, the sign of
  the exponent and at least two exponent digits.  The float \<open>-0.0\<close>, which is equal to
  \<open>0.0\<close> but prints with its sign, has no decimal of its own and is not a value of the
  model; the statements about printed floats are made for the positional range
  (\<open>positional\<close>), which excludes zero.
\<close>

definition positional :: "rat \<Rightarrow> bool" where
  "positional q = (1 / 10000 \<le> \<bar>q\<bar> \<and> \<bar>q\<bar> < 10 ^ 16)"

definition digit_char :: "nat \<Rightarrow> char" where
  "digit_char d = char_of (48 + d)"

function nat_str :: "nat \<Rightarrow> string" where
  "nat_str n = (if n < 10 then [digit_char n] else nat_str (n div 10) @ [digit_char (n mod 10)])"
  by pat_completeness auto
termination
  by (relation "measure id") auto

declare nat_str.simps [simp del]

fun frac_digits :: "nat \<Rightarrow> rat \<Rightarrow> string" where
  "frac_digits 0 q = []"
| "frac_digits (Suc k) q =
     (if q = 0 then []
      else let d = nat \<lfloor>q * 10\<rfloor> in digit_char d # frac_digits k (q * 10 - of_nat d))"

definition exp_str :: "string \<Rightarrow> int \<Rightarrow> string" where
  "exp_str ds e =
     (case ds of [] \<Rightarrow> [] | d # rest \<Rightarrow> d # (if List.null rest then [] else CHR ''.'' # rest))
     @ ''e'' @ (if e < 0 then ''-'' else ''+'')
     @ (let s = nat_str (nat \<bar>e\<bar>) in if length s < 2 then CHR ''0'' # s else s)"

definition float_str :: "rat \<Rightarrow> string" where
  "float_str q =
     (let a = \<bar>q\<bar>; i = nat \<lfloor>a\<rfloor>; f = a - of_nat i;
          sign = (if q < 0 then ''-'' else [])
      in if a \<noteq> 0 \<and> a < 1 / 10000
         then let fd = frac_digits 400 f;
                  z = length (takeWhile (\<lambda>c. c = CHR ''0'') fd)
              in sign @ exp_str (dropWhile (\<lambda>c. c = CHR ''0'') fd) (- int (z + 1))
         else if 10 ^ 16 \<le> a
         then let ds = nat_str i @ frac_digits 400 f
              in sign @ exp_str (rev (dropWhile (\<lambda>c. c = CHR ''0'') (rev ds)))
                          (int (length (nat_str i)) - 1)
         else sign @ nat_str i @ ''.'' @ (if f = 0 then ''0'' else frac_digits 400 f))"

text \<open>
  \<^verbatim>\<open>series.astype(str)\<close> on one cell: a text stays, a float is printed, and a missing
  value stays missing (pandas 3; earlier versions turned it into the text \<open>nan\<close>).
  \<^verbatim>\<open>sep.join(xs)\<close> on texts.
\<close>

fun cell_str :: "cell \<Rightarrow> string option" where
  "cell_str (Str s) = Some s"
| "cell_str (Flt q) = Some (float_str q)"
| "cell_str NaN = None"

fun join :: "string \<Rightarrow> string list \<Rightarrow> string" where
  "join sep [] = []"
| "join sep [x] = x"
| "join sep (x # y # ys) = x @ sep @ join sep (y # ys)"

text \<open>
  The order in which pandas sorts the values of a column and the keys of a grouping:
  floats by value, then texts by code point, the missing value last.
\<close>

fun cell_key :: "cell \<Rightarrow> nat \<times> rat \<times> string" where
  "cell_key (Flt q) = (0, q, [])"
| "cell_key (Str s) = (1, 0, s)"
| "cell_key NaN = (2, 0, [])"

fun is_Flt :: "cell \<Rightarrow> bool" where
  "is_Flt (Flt a) = True"
| "is_Flt (Str s) = False"
| "is_Flt NaN = False"

fun flt_val :: "cell \<Rightarrow> rat" where
  "flt_val (Flt a) = a"
| "flt_val (Str s) = 0"
| "flt_val NaN = 0"

fun str_val :: "cell \<Rightarrow> string" where
  "str_val (Str s) = s"
| "str_val (Flt a) = []"
| "str_val NaN = []"

definition dropna :: "cell list \<Rightarrow> cell list" where
  "dropna s = filter (\<lambda>c. c \<noteq> NaN) s"

text \<open>
  \<^verbatim>\<open>df.sort_values(by)\<close> with several keys: \<^verbatim>\<open>KeyError\<close> for the first key that is not a
  column, otherwise a stable sort of the rows, ascending and lexicographic in the keys.
\<close>

definition sort_values :: "dataframe \<Rightarrow> string list \<Rightarrow> error + dataframe" where
  "sort_values df by_keys =
     (case find (\<lambda>k. k \<notin> set (columns df)) by_keys of
        Some k \<Rightarrow> Inl (KeyError k)
      | None \<Rightarrow>
          Inr \<lparr>columns = columns df,
               rows = sort_key (\<lambda>r. map (\<lambda>k. cell_key (cell_at r k)) by_keys) (rows df)\<rparr>)"

text \<open>\<^verbatim>\<open>df[cols]\<close> for a list of columns of the frame, and \<^verbatim>\<open>df.rename(columns=m)\<close>.\<close>

definition select_columns :: "dataframe \<Rightarrow> string list \<Rightarrow> dataframe" where
  "select_columns df cols = \<lparr>columns = cols, rows = map (\<lambda>r. r |` set cols) (rows df)\<rparr>"

definition rename_col :: "(string \<times> string) list \<Rightarrow> string \<Rightarrow> string" where
  "rename_col m c = (case map_of m c of Some c' \<Rightarrow> c' | None \<Rightarrow> c)"

definition rename :: "dataframe \<Rightarrow> (string \<times> string) list \<Rightarrow> dataframe" where
  "rename df m =
     \<lparr>columns = map (rename_col m) (columns df),
      rows = map (\<lambda>r. map_of (map (\<lambda>c. (rename_col m c, cell_at r c)) (columns df))) (rows df)\<rparr>"

section \<open>Aggregators\<close>

definition build_per_spw_table :: "dataframe \<Rightarrow> error + dataframe" where
  "build_per_spw_table df =
     (let keep_cols = filter (\<lambda>c. c \<in> set (columns df))
                        [''Source'', ''project_code'', ''band_list'',
                         ''min_freq_GHz'', ''max_freq_GHz'',
                         ''SiO_transition'', ''SiO_freq_GHz'',
                         ''ang_res_arcsec'', ''MOUS_ID''];
          spw = rename (select_columns df keep_cols)
                  [(''project_code'', ''Project''), (''band_list'', ''ALMA_Band'')]
      in sort_values spw [''Source'', ''Project'', ''ALMA_Band'', ''SiO_freq_GHz''])"

text \<open>
  The reductions of \<^verbatim>\<open>build_per_mous_table\<close>.  \<^verbatim>\<open>join_unique\<close> is the local function of
  the source: the values are converted with \<^verbatim>\<open>astype(str)\<close>, \<^verbatim>\<open>unique()\<close> keeps the first
  occurrence of each, and \<^verbatim>\<open>sorted\<close> and \<^verbatim>\<open>", ".join\<close> work on texts, so they raise
  \<^verbatim>\<open>TypeError\<close> when a missing value is among them.  \<^verbatim>\<open>"min"\<close> and \<^verbatim>\<open>"max"\<close> skip missing
  values and give the missing value for a group that has no other.
\<close>

definition join_unique :: "cell list \<Rightarrow> error + cell" where
  "join_unique series =
     (case those (unique (map cell_str series)) of
        None \<Rightarrow> Inl TypeError
      | Some strs \<Rightarrow> Inr (Str (join '', '' (sort strs))))"

definition reduce_min :: "cell list \<Rightarrow> error + cell" where
  "reduce_min series =
     (let vs = dropna series
      in if List.null vs then Inr NaN
         else if list_all is_Flt vs then Inr (Flt (Min (set (map flt_val vs))))
         else if list_all is_Str vs then Inr (Str (Min (set (map str_val vs))))
         else Inl TypeError)"

definition reduce_max :: "cell list \<Rightarrow> error + cell" where
  "reduce_max series =
     (let vs = dropna series
      in if List.null vs then Inr NaN
         else if list_all is_Flt vs then Inr (Flt (Max (set (map flt_val vs))))
         else if list_all is_Str vs then Inr (Str (Max (set (map str_val vs))))
         else Inl TypeError)"

datatype reducer = JoinUnique | MinOf | MaxOf

fun reduce :: "reducer \<Rightarrow> cell list \<Rightarrow> error + cell" where
  "reduce JoinUnique series = join_unique series"
| "reduce MinOf series = reduce_min series"
| "reduce MaxOf series = reduce_max series"

text \<open>Running a list of fallible computations in order; the first error ends it.\<close>

fun collect :: "(error + 'a) list \<Rightarrow> error + 'a list" where
  "collect [] = Inr []"
| "collect (x # xs) =
     (case x of Inl e \<Rightarrow> Inl e
      | Inr v \<Rightarrow> (case collect xs of Inl e \<Rightarrow> Inl e | Inr vs \<Rightarrow> Inr (v # vs)))"

text \<open>
  \<^verbatim>\<open>df.groupby(key).agg(spec).reset_index()\<close>: \<^verbatim>\<open>KeyError\<close> for an absent key column, a
  \<^verbatim>\<open>KeyError\<close> that lists, sorted, the columns of \<open>spec\<close> that the table lacks, otherwise
  one row per value of the key column, the missing value excepted, in the sorted order
  of the keys; the key comes first, then the reduced columns in the order of \<open>spec\<close>.
\<close>

definition group_row :: "dataframe \<Rightarrow> string \<Rightarrow> (string \<times> reducer) list \<Rightarrow> cell \<Rightarrow> error + row" where
  "group_row df key spec k =
     (let grp = filter (\<lambda>r. cell_at r key = k) (rows df)
      in case collect (map (\<lambda>(c, red). reduce red (map (\<lambda>r. cell_at r c) grp)) spec) of
           Inl e \<Rightarrow> Inl e
         | Inr vs \<Rightarrow> Inr (map_of ((key, k) # zip (map fst spec) vs)))"

definition groupby_agg :: "dataframe \<Rightarrow> string \<Rightarrow> (string \<times> reducer) list \<Rightarrow> error + dataframe" where
  "groupby_agg df key spec =
     (if key \<notin> set (columns df) then Inl (KeyError key)
      else if list_ex (\<lambda>c. c \<notin> set (columns df)) (map fst spec)
      then Inl (KeyErrorLabels (sort (filter (\<lambda>c. c \<notin> set (columns df)) (map fst spec))))
      else let keys = sort_key cell_key (unique (dropna (map (\<lambda>r. cell_at r key) (rows df))))
           in case collect (map (group_row df key spec) keys) of
                Inl e \<Rightarrow> Inl e
              | Inr rs \<Rightarrow> Inr \<lparr>columns = key # map fst spec, rows = rs\<rparr>)"

definition build_per_mous_table :: "dataframe \<Rightarrow> error + dataframe" where
  "build_per_mous_table df =
     (case groupby_agg df ''MOUS_ID''
             [(''Source'', JoinUnique),
              (''project_code'', JoinUnique),
              (''band_list'', JoinUnique),
              (''min_freq_GHz'', MinOf),
              (''max_freq_GHz'', MaxOf),
              (''SiO_transition'', JoinUnique),
              (''SiO_freq_GHz'', JoinUnique),
              (''ang_res_arcsec'', MinOf)] of
        Inl e \<Rightarrow> Inl e
      | Inr grouped \<Rightarrow>
          sort_values
            (rename grouped
               [(''project_code'', ''Project''), (''band_list'', ''ALMA_Band''),
                (''SiO_transition'', ''SiO_transitions''), (''SiO_freq_GHz'', ''SiO_freqs_GHz'')])
            [''Source'', ''Project''])"

section \<open>Target query stage\<close>

text \<open>
  The archive client \<^verbatim>\<open>alminer.target\<close> is outside the program; it is a parameter that
  answers a target name with an exception, with \<^verbatim>\<open>None\<close>, or with a table.
\<close>

datatype query_result = QueryFailed | ReturnedNone | Returned dataframe

definition MAPS_SOURCES :: "string list" where
  "MAPS_SOURCES = [''IM Lup'', ''AS 209'', ''GM Aur'', ''HD 163296'', ''MWC 480'']"

fun query_loop :: "(string \<Rightarrow> query_result) \<Rightarrow> string list \<Rightarrow> dataframe list \<Rightarrow> dataframe list" where
  "query_loop target [] all_obs = all_obs"
| "query_loop target (src # sources) all_obs =
     (case target src of
        QueryFailed \<Rightarrow> query_loop target sources all_obs
      | ReturnedNone \<Rightarrow> query_loop target sources all_obs
      | Returned df \<Rightarrow>
          if len df = 0 then query_loop target sources all_obs
          else query_loop target sources (all_obs @ [assign df ''Source'' (Str src)]))"

definition query_maps_sources :: "(string \<Rightarrow> query_result) \<Rightarrow> string list \<Rightarrow> error + dataframe" where
  "query_maps_sources target sources =
     (let all_obs = query_loop target sources []
      in if List.null all_obs
         then Inl (RuntimeError ''No observations returned for any MAPS source.'')
         else let combined = pd_concat all_obs
              in case getitem combined ''Source'' of Inl e \<Rightarrow> Inl e
                 | Inr counted \<Rightarrow> Inr combined)"

section \<open>Output writer and main program\<close>

text \<open>
  The serializers \<^verbatim>\<open>to_csv\<close> and \<^verbatim>\<open>to_latex\<close> are outside the program.  A written file is
  recorded by its name and by the table and format handed to the serializer, for
  \<^verbatim>\<open>to_latex\<close> with the list of columns asked for (a listed column that the table lacks
  is left out by the serializer).  A run yields the files written and how it ended.
\<close>

datatype rendering = Csv dataframe | Latex "string list" dataframe

type_synonym files = "(string \<times> rendering) list"

definition save_tables :: "dataframe \<Rightarrow> dataframe \<Rightarrow> files" where
  "save_tables spw mous =
     [(''sio_spw_matches.csv'', Csv spw),
      (''sio_mous_summary.csv'', Csv mous),
      (''sio_spw_matches.tex'',
         Latex [''Source'', ''Project'', ''ALMA_Band'',
                ''min_freq_GHz'', ''max_freq_GHz'',
                ''SiO_transition'', ''SiO_freq_GHz'',
                ''ang_res_arcsec''] spw),
      (''sio_mous_summary.tex'',
         Latex [''MOUS_ID'', ''Source'', ''Project'', ''ALMA_Band'',
                ''SiO_transitions'', ''SiO_freqs_GHz'',
                ''min_freq_GHz'', ''max_freq_GHz'',
                ''ang_res_arcsec''] mous)]"

text \<open>
  \<^verbatim>\<open>main\<close>.  \<^verbatim>\<open>DO_DOWNLOAD\<close> is \<^verbatim>\<open>False\<close> in the source, so the download stage is never
  run and is not part of the model.
\<close>

definition main :: "(string \<Rightarrow> query_result) \<Rightarrow> files \<times> (error + unit)" where
  "main target =
     (case query_maps_sources target MAPS_SOURCES of Inl e \<Rightarrow> ([], Inl e) | Inr obs0 \<Rightarrow>
      case harmonize_columns obs0 of Inl e \<Rightarrow> ([], Inl e) | Inr obs \<Rightarrow>
      case find_sio_spw_matches obs of Inl e \<Rightarrow> ([], Inl e) | Inr sio_spw \<Rightarrow>
        if is_empty sio_spw then ([], Inr ())
        else
          case build_per_spw_table sio_spw of Inl e \<Rightarrow> ([], Inl e) | Inr spw_table \<Rightarrow>
          case build_per_mous_table sio_spw of Inl e \<Rightarrow> ([], Inl e) | Inr mous_table \<Rightarrow>
            (save_tables spw_table mous_table, Inr ()))"

section \<open>Notions used in the statements\<close>

text \<open>
  The condition of the specification for a record to cover a frequency: both bounds of
  the window are numbers and the frequency lies strictly between them.
\<close>

definition strictly_inside :: "row \<Rightarrow> rat \<Rightarrow> bool" where
  "strictly_inside r nu =
     (case (r ''min_freq_GHz'', r ''max_freq_GHz'') of
        (Some (Flt a), Some (Flt b)) \<Rightarrow> a < nu \<and> nu < b
      | _ \<Rightarrow> False)"

text \<open>
  The input of the matcher: a well-formed table that has the \<open>Source\<close> tag of the query
  stage and the two frequency columns, which hold numbers or missing values.
\<close>

definition numeric_column :: "dataframe \<Rightarrow> string \<Rightarrow> bool" where
  "numeric_column df c = (c \<in> set (columns df) \<and> (\<forall>r \<in> set (rows df). \<not> is_Str (cell_at r c)))"

definition matchable :: "dataframe \<Rightarrow> bool" where
  "matchable df =
     (wf_frame df \<and> ''Source'' \<in> set (columns df)
      \<and> numeric_column df ''min_freq_GHz'' \<and> numeric_column df ''max_freq_GHz'')"

text \<open>A record with its two match annotations, and the matches in closed form.\<close>

definition tagged :: "string \<Rightarrow> rat \<Rightarrow> row \<Rightarrow> row" where
  "tagged tr nu r = r(''SiO_transition'' \<mapsto> Str tr, ''SiO_freq_GHz'' \<mapsto> Flt nu)"

definition selected :: "dataframe \<Rightarrow> string \<Rightarrow> rat \<Rightarrow> dataframe" where
  "selected df tr nu =
     \<lparr>columns = add_column (add_column (columns df) ''SiO_transition'') ''SiO_freq_GHz'',
      rows = map (tagged tr nu) (filter (\<lambda>r. strictly_inside r nu) (rows df))\<rparr>"

definition match_rows :: "(string \<times> rat) list \<Rightarrow> row list \<Rightarrow> row list" where
  "match_rows items rs =
     concat (map (\<lambda>(tr, nu). map (tagged tr nu) (filter (\<lambda>r. strictly_inside r nu) rs)) items)"

text \<open>
  A target is productive when the archive answers it with a table that has rows; the
  tables of the productive targets, each tagged with its target, in the order of the
  targets.
\<close>

fun productive :: "query_result \<Rightarrow> bool" where
  "productive QueryFailed = False"
| "productive ReturnedNone = False"
| "productive (Returned df) = (len df \<noteq> 0)"

fun returned_frame :: "query_result \<Rightarrow> dataframe" where
  "returned_frame QueryFailed = empty_frame"
| "returned_frame ReturnedNone = empty_frame"
| "returned_frame (Returned df) = df"

definition tagged_results :: "(string \<Rightarrow> query_result) \<Rightarrow> string list \<Rightarrow> dataframe list" where
  "tagged_results target sources =
     map (\<lambda>src. assign (returned_frame (target src)) ''Source'' (Str src))
         (filter (\<lambda>src. productive (target src)) sources)"

text \<open>
  A column of a list of rows, and the group of a dataset-group identifier: the rows of
  the table that carry it.
\<close>

definition column_of :: "string \<Rightarrow> row list \<Rightarrow> cell list" where
  "column_of c rs = map (\<lambda>r. cell_at r c) rs"

definition group_of :: "dataframe \<Rightarrow> cell \<Rightarrow> row list" where
  "group_of df k = filter (\<lambda>r. cell_at r ''MOUS_ID'' = k) (rows df)"

text \<open>
  A value of a joined column can be printed when it is a text or a float of the
  positional range; the joined field of a column of values: the comma-joined sorted list
  of the set of their string representations.
\<close>

fun printable :: "cell \<Rightarrow> bool" where
  "printable (Str s) = True"
| "printable (Flt q) = positional q"
| "printable NaN = False"

definition joined :: "cell list \<Rightarrow> cell" where
  "joined series = Str (join '', '' (sorted_list_of_set (Option.these (cell_str ` set series))))"

text \<open>
  The input of the per-group builder: a table of MatchRecords.  It has the identifier
  and the eight aggregated columns; its window bounds are numbers (a record is matched
  only if they are), its angular resolutions are numbers or missing, and the values of
  its five joined columns are present and can be printed.
\<close>

definition summarizable :: "dataframe \<Rightarrow> bool" where
  "summarizable df =
     (set [''MOUS_ID'', ''Source'', ''project_code'', ''band_list'', ''min_freq_GHz'',
           ''max_freq_GHz'', ''SiO_transition'', ''SiO_freq_GHz'', ''ang_res_arcsec'']
        \<subseteq> set (columns df)
      \<and> (\<forall>r \<in> set (rows df). is_Flt (cell_at r ''min_freq_GHz'')
                                \<and> is_Flt (cell_at r ''max_freq_GHz'')
                                \<and> \<not> is_Str (cell_at r ''ang_res_arcsec'')
                                \<and> printable (cell_at r ''Source'')
                                \<and> printable (cell_at r ''project_code'')
                                \<and> printable (cell_at r ''band_list'')
                                \<and> printable (cell_at r ''SiO_transition'')
                                \<and> printable (cell_at r ''SiO_freq_GHz'')))"

text \<open>
  The sorted group keys, and the row of one group before and after the renaming, in
  closed form.
\<close>

definition group_keys :: "dataframe \<Rightarrow> cell list" where
  "group_keys df = sort_key cell_key (unique (dropna (column_of ''MOUS_ID'' (rows df))))"

definition grouped_row :: "dataframe \<Rightarrow> cell \<Rightarrow> row" where
  "grouped_row df k =
     (let grp = group_of df k
      in map_of [(''MOUS_ID'', k),
          (''Source'', joined (column_of ''Source'' grp)),
          (''project_code'', joined (column_of ''project_code'' grp)),
          (''band_list'', joined (column_of ''band_list'' grp)),
          (''min_freq_GHz'', Flt (Min (flt_val ` set (column_of ''min_freq_GHz'' grp)))),
          (''max_freq_GHz'', Flt (Max (flt_val ` set (column_of ''max_freq_GHz'' grp)))),
          (''SiO_transition'', joined (column_of ''SiO_transition'' grp)),
          (''SiO_freq_GHz'', joined (column_of ''SiO_freq_GHz'' grp)),
          (''ang_res_arcsec'',
             (if dropna (column_of ''ang_res_arcsec'' grp) = [] then NaN
              else Flt (Min (flt_val ` set (dropna (column_of ''ang_res_arcsec'' grp))))))])"

definition summary_row :: "dataframe \<Rightarrow> cell \<Rightarrow> row" where
  "summary_row df k =
     (let grp = group_of df k
      in [''MOUS_ID'' \<mapsto> k,
          ''Source'' \<mapsto> joined (column_of ''Source'' grp),
          ''Project'' \<mapsto> joined (column_of ''project_code'' grp),
          ''ALMA_Band'' \<mapsto> joined (column_of ''band_list'' grp),
          ''min_freq_GHz'' \<mapsto> Flt (Min (flt_val ` set (column_of ''min_freq_GHz'' grp))),
          ''max_freq_GHz'' \<mapsto> Flt (Max (flt_val ` set (column_of ''max_freq_GHz'' grp))),
          ''SiO_transitions'' \<mapsto> joined (column_of ''SiO_transition'' grp),
          ''SiO_freqs_GHz'' \<mapsto> joined (column_of ''SiO_freq_GHz'' grp),
          ''ang_res_arcsec'' \<mapsto>
             (if dropna (column_of ''ang_res_arcsec'' grp) = [] then NaN
              else Flt (Min (flt_val ` set (dropna (column_of ''ang_res_arcsec'' grp)))))])"

text \<open>The sort key of the per-SPW table.\<close>

definition spw_sort_key :: "row \<Rightarrow> (nat \<times> rat \<times> string) list" where
  "spw_sort_key r =
     map (\<lambda>c. cell_key (cell_at r c)) [''Source'', ''Project'', ''ALMA_Band'', ''SiO_freq_GHz'']"

section \<open>Properties of the harmonizer\<close>

lemma harmonize_keeps_other_columns:
  assumes "c \<noteq> ''ang_res_arcsec''" "c \<noteq> ''band_list''"
  shows "c \<in> set (columns
           (let df1 = (if ''ang_res_arcsec'' \<notin> set (columns df0)
                       then (if ''best_ang_res'' \<in> set (columns df0)
                             then copy_column df0 ''ang_res_arcsec'' ''best_ang_res''
                             else assign df0 ''ang_res_arcsec'' NaN)
                       else df0)
            in (if ''band_list'' \<notin> set (columns df1) \<and> ''band'' \<in> set (columns df1)
                then copy_column df1 ''band_list'' ''band''
                else df1))) \<longleftrightarrow> c \<in> set (columns df0)"
  using assms by (auto simp: Let_def copy_column_def assign_def add_column_def)

text \<open>
  C6.  The harmonizer fails with a schema error that names the missing column whenever
  \<open>min_freq_GHz\<close> or \<open>max_freq_GHz\<close> is absent from its input: an input without
  \<open>min_freq_GHz\<close> (in particular one that lacks both columns) is rejected with the
  message naming \<open>min_freq_GHz\<close>, and an input that has \<open>min_freq_GHz\<close> but not
  \<open>max_freq_GHz\<close> is rejected with the message naming \<open>max_freq_GHz\<close>.
\<close>

theorem harmonize_missing_frequency_column:
  "(''min_freq_GHz'' \<notin> set (columns df) \<longrightarrow>
      harmonize_columns df = Inl (KeyError ''Missing required ObsCore column: min_freq_GHz''))
   \<and> (''min_freq_GHz'' \<in> set (columns df) \<and> ''max_freq_GHz'' \<notin> set (columns df) \<longrightarrow>
      harmonize_columns df = Inl (KeyError ''Missing required ObsCore column: max_freq_GHz''))"
proof -
  have min: "''min_freq_GHz'' \<noteq> ''ang_res_arcsec''" "''min_freq_GHz'' \<noteq> ''band_list''"
    and max: "''max_freq_GHz'' \<noteq> ''ang_res_arcsec''" "''max_freq_GHz'' \<noteq> ''band_list''"
    by simp_all
  note keep_min = harmonize_keeps_other_columns [OF min, of df, unfolded Let_def]
  note keep_max = harmonize_keeps_other_columns [OF max, of df, unfolded Let_def]
  show ?thesis
    unfolding harmonize_columns_def Let_def
    by (simp add: keep_min keep_max)
qed

theorem harmonize_missing_frequency_column_witness:
  "harmonize_columns \<lparr>columns = [''Source'', ''member_ous_uid''],
                      rows = [[''Source'' \<mapsto> Str ''AS 209'', ''member_ous_uid'' \<mapsto> Str ''uid://A001/X1/X2'']]\<rparr>
     = Inl (KeyError ''Missing required ObsCore column: min_freq_GHz'')
   \<and> harmonize_columns \<lparr>columns = [''min_freq_GHz'', ''member_ous_uid''],
                        rows = [[''min_freq_GHz'' \<mapsto> Flt 80, ''member_ous_uid'' \<mapsto> Str ''uid://A001/X1/X2'']]\<rparr>
     = Inl (KeyError ''Missing required ObsCore column: max_freq_GHz'')"
  using harmonize_missing_frequency_column
          [of "\<lparr>columns = [''Source'', ''member_ous_uid''],
                rows = [[''Source'' \<mapsto> Str ''AS 209'', ''member_ous_uid'' \<mapsto> Str ''uid://A001/X1/X2'']]\<rparr>"]
        harmonize_missing_frequency_column
          [of "\<lparr>columns = [''min_freq_GHz'', ''member_ous_uid''],
                rows = [[''min_freq_GHz'' \<mapsto> Flt 80, ''member_ous_uid'' \<mapsto> Str ''uid://A001/X1/X2'']]\<rparr>"]
  by simp

section \<open>Properties of the frame operations\<close>

lemma set_unique [simp]: "set (unique xs) = set xs"
  by (simp add: unique_def)

lemma distinct_unique [simp]: "distinct (unique xs)"
  by (simp add: unique_def)

lemma set_add_column [simp]: "set (add_column cols c) = insert c (set cols)"
  by (auto simp: add_column_def)

lemma reindex_row_id: "dom r = set cols \<Longrightarrow> reindex_row cols r = r"
  by (rule ext) (auto simp: reindex_row_def cell_at_def split: option.splits)

lemma pd_concat_same_columns:
  assumes "\<forall>df \<in> set dfs. wf_frame df \<and> set (columns df) = C" "dfs \<noteq> []"
  shows "rows (pd_concat dfs) = concat (map rows dfs)" "set (columns (pd_concat dfs)) = C"
proof -
  have cols: "set (unique (concat (map columns dfs))) = C"
  proof -
    from assms(2) obtain d where "d \<in> set dfs" by (cases dfs) auto
    with assms(1) show ?thesis by auto
  qed
  have "map (reindex_row (unique (concat (map columns dfs)))) (rows df) = rows df" if "df \<in> set dfs" for df
    using that assms(1) cols by (intro map_idI reindex_row_id) (auto simp: wf_frame_def)
  then show "rows (pd_concat dfs) = concat (map rows dfs)"
    by (simp add: pd_concat_def Let_def cong: map_cong)
  show "set (columns (pd_concat dfs)) = C"
    using cols by (simp add: pd_concat_def Let_def)
qed

section \<open>Properties of the transition matcher\<close>

text \<open>
  On a matchable table the loop never fails, and it appends one frame for each transition
  that some record covers.
\<close>

lemma filter_zip_mask:
  "map fst (filter snd (zip xs (map2 (\<and>) (map p xs) (map q xs)))) = filter (\<lambda>x. p x \<and> q x) xs"
  by (induction xs) auto

lemma cell_window:
  "\<not> is_Str (cell_at r ''min_freq_GHz'') \<Longrightarrow>
   (cell_lt (cell_at r ''min_freq_GHz'') nu \<and> cell_gt (cell_at r ''max_freq_GHz'') nu) = strictly_inside r nu"
  by (cases "r ''min_freq_GHz''"; cases "r ''max_freq_GHz''";
      cases "cell_at r ''min_freq_GHz''"; cases "cell_at r ''max_freq_GHz''")
     (auto simp: strictly_inside_def cell_at_def split: option.splits cell.splits)

lemma match_loop_closed:
  assumes "matchable df"
  shows "match_loop df items acc =
           Inr (acc @ map (\<lambda>(tr, nu). selected df tr nu)
                        (filter (\<lambda>(tr, nu). \<exists>r \<in> set (rows df). strictly_inside r nu) items))"
proof (induction items arbitrary: acc)
  case Nil
  then show ?case by simp
next
  case (Cons item items)
  obtain tr nu where item: "item = (tr, nu)" by (cases item)
  from assms have mins: "getitem df ''min_freq_GHz'' = Inr (map (\<lambda>r. cell_at r ''min_freq_GHz'') (rows df))"
    and maxs: "getitem df ''max_freq_GHz'' = Inr (map (\<lambda>r. cell_at r ''max_freq_GHz'') (rows df))"
    and lo: "series_lt (map (\<lambda>r. cell_at r ''min_freq_GHz'') (rows df)) nu
               = Inr (map (\<lambda>r. cell_lt (cell_at r ''min_freq_GHz'') nu) (rows df))"
    and hi: "series_gt (map (\<lambda>r. cell_at r ''max_freq_GHz'') (rows df)) nu
               = Inr (map (\<lambda>r. cell_gt (cell_at r ''max_freq_GHz'') nu) (rows df))"
    by (auto simp: matchable_def numeric_column_def getitem_def series_lt_def series_gt_def
                   list_ex_iff comp_def)
  have sel: "boolean_index df (map2 (\<and>) (map (\<lambda>r. cell_lt (cell_at r ''min_freq_GHz'') nu) (rows df))
                                       (map (\<lambda>r. cell_gt (cell_at r ''max_freq_GHz'') nu) (rows df)))
               = \<lparr>columns = columns df, rows = filter (\<lambda>r. strictly_inside r nu) (rows df)\<rparr>"
  proof -
    have "filter (\<lambda>r. cell_lt (cell_at r ''min_freq_GHz'') nu \<and> cell_gt (cell_at r ''max_freq_GHz'') nu) (rows df)
            = filter (\<lambda>r. strictly_inside r nu) (rows df)"
      using assms by (intro filter_cong refl cell_window) (simp add: matchable_def numeric_column_def)
    then show ?thesis by (simp add: boolean_index_def filter_zip_mask)
  qed
  show ?case
    unfolding item
    by (simp add: mins maxs lo hi sel Cons.IH len_def assign_def selected_def tagged_def
                  filter_empty_conv Let_def)
qed

lemma dom_tagged: "dom (tagged tr nu r) = insert ''SiO_transition'' (insert ''SiO_freq_GHz'' (dom r))"
  by (auto simp: tagged_def)

lemma columns_selected [simp]:
  "set (columns (selected df tr nu)) = insert ''SiO_transition'' (insert ''SiO_freq_GHz'' (set (columns df)))"
  by (auto simp: selected_def)

lemma wf_selected: "wf_frame df \<Longrightarrow> wf_frame (selected df tr nu)"
  by (auto simp: wf_frame_def selected_def dom_tagged)

lemma concat_skip_empty:
  "concat (map (\<lambda>x. map (g x) (filter (P x) xs)) (filter (\<lambda>x. \<exists>r \<in> set xs. P x r) ys))
     = concat (map (\<lambda>x. map (g x) (filter (P x) xs)) ys)"
  by (induction ys) (auto simp: filter_empty_conv)

lemma find_sio_spw_matches_closed:
  assumes "matchable df"
  shows "\<exists>out. find_sio_spw_matches df = Inr out
            \<and> rows out = match_rows SIO_V0_TRANSITIONS_GHZ (rows df)
            \<and> (is_empty out \<longleftrightarrow> (\<forall>(tr, nu) \<in> set SIO_V0_TRANSITIONS_GHZ. \<forall>r \<in> set (rows df). \<not> strictly_inside r nu))"
proof -
  let ?T = SIO_V0_TRANSITIONS_GHZ
  let ?hit = "filter (\<lambda>(tr, nu). \<exists>r \<in> set (rows df). strictly_inside r nu) ?T"
  let ?ms = "map (\<lambda>(tr, nu). selected df tr nu) ?hit"
  have loop: "match_loop df ?T [] = Inr ?ms"
    using match_loop_closed [OF assms, of ?T "[]"] by simp
  have rows_ms: "concat (map rows ?ms) = match_rows ?T (rows df)"
  proof -
    have "concat (map rows ?ms)
            = concat (map (\<lambda>x. map (\<lambda>r. tagged (fst x) (snd x) r) (filter (\<lambda>r. strictly_inside r (snd x)) (rows df)))
                        (filter (\<lambda>x. \<exists>r \<in> set (rows df). strictly_inside r (snd x)) ?T))"
      by (simp add: comp_def selected_def split_def)
    also have "\<dots> = concat (map (\<lambda>x. map (\<lambda>r. tagged (fst x) (snd x) r) (filter (\<lambda>r. strictly_inside r (snd x)) (rows df))) ?T)"
      by (rule concat_skip_empty)
    finally show ?thesis by (simp add: match_rows_def split_def)
  qed
  show ?thesis
  proof (cases "?hit = []")
    case True
    then have none: "\<forall>(tr, nu) \<in> set ?T. \<forall>r \<in> set (rows df). \<not> strictly_inside r nu"
      by (auto simp: filter_empty_conv)
    have "find_sio_spw_matches df = Inr empty_frame"
      by (simp add: find_sio_spw_matches_def loop True)
    moreover have "rows empty_frame = match_rows ?T (rows df)"
      using rows_ms True by (simp add: empty_frame_def)
    moreover have "is_empty empty_frame" by (simp add: is_empty_def empty_frame_def)
    ultimately show ?thesis using none by auto
  next
    case False
    then have ne: "?ms \<noteq> []" by simp
    have same: "\<forall>d \<in> set ?ms. wf_frame d
          \<and> set (columns d) = insert ''SiO_transition'' (insert ''SiO_freq_GHz'' (set (columns df)))"
      using assms by (auto simp: matchable_def wf_selected)
    note pc = pd_concat_same_columns [OF same ne]
    have src: "''Source'' \<in> set (columns (pd_concat ?ms))"
      using assms by (simp add: pc matchable_def)
    have res: "find_sio_spw_matches df = Inr (pd_concat ?ms)"
      using False src by (simp add: find_sio_spw_matches_def loop Let_def getitem_def)
    have rws: "rows (pd_concat ?ms) = match_rows ?T (rows df)"
      by (simp only: pc rows_ms)
    from False obtain tr nu r where hit: "(tr, nu) \<in> set ?T" "r \<in> set (rows df)" "strictly_inside r nu"
      by (auto simp: filter_empty_conv)
    then have "tagged tr nu r \<in> set (match_rows ?T (rows df))"
      by (force simp: match_rows_def)
    then have "\<not> is_empty (pd_concat ?ms)"
      using src by (auto simp: is_empty_def rws)
    with res rws hit show ?thesis by auto
  qed
qed

lemma find_sio_spw_matches_columns:
  assumes "matchable df" "find_sio_spw_matches df = Inr out" "\<not> is_empty out"
  shows "set (columns out) = insert ''SiO_transition'' (insert ''SiO_freq_GHz'' (set (columns df)))"
proof -
  let ?T = SIO_V0_TRANSITIONS_GHZ
  let ?hit = "filter (\<lambda>(tr, nu). \<exists>r \<in> set (rows df). strictly_inside r nu) ?T"
  let ?ms = "map (\<lambda>(tr, nu). selected df tr nu) ?hit"
  have loop: "match_loop df ?T [] = Inr ?ms"
    using match_loop_closed [OF assms(1), of ?T "[]"] by simp
  show ?thesis
  proof (cases "?hit = []")
    case True
    have "find_sio_spw_matches df = Inr empty_frame"
      by (simp add: find_sio_spw_matches_def loop True)
    with assms(2) have "out = empty_frame" by simp
    then have "is_empty out" by (simp add: is_empty_def empty_frame_def)
    with assms(3) show ?thesis by (rule notE)
  next
    case False
    then have ne: "?ms \<noteq> []" by simp
    have same: "\<forall>d \<in> set ?ms. wf_frame d
          \<and> set (columns d) = insert ''SiO_transition'' (insert ''SiO_freq_GHz'' (set (columns df)))"
      using assms(1) by (auto simp: matchable_def wf_selected)
    note pc = pd_concat_same_columns [OF same ne]
    have src: "''Source'' \<in> set (columns (pd_concat ?ms))"
      using assms(1) by (simp add: pc matchable_def)
    have "find_sio_spw_matches df = Inr (pd_concat ?ms)"
      using False src by (simp add: find_sio_spw_matches_def loop Let_def getitem_def)
    with assms(2) have "out = pd_concat ?ms" by simp
    then show ?thesis by (simp only: pc(2))
  qed
qed

lemma strictly_inside_iff:
  "strictly_inside r nu \<longleftrightarrow>
     (\<exists>a b. r ''min_freq_GHz'' = Some (Flt a) \<and> r ''max_freq_GHz'' = Some (Flt b) \<and> a < nu \<and> nu < b)"
proof (cases "r ''min_freq_GHz''")
  case None
  then show ?thesis by (simp add: strictly_inside_def)
next
  case (Some lo)
  note lo = this
  show ?thesis
  proof (cases "r ''max_freq_GHz''")
    case None
    then show ?thesis by (simp add: strictly_inside_def lo split: cell.splits)
  next
    case (Some hi)
    then show ?thesis
      by (cases lo; cases hi) (simp_all add: strictly_inside_def lo)
  qed
qed

lemma set_match_rows:
  "set (match_rows items rs) =
     {tagged tr nu r | tr nu r. (tr, nu) \<in> set items \<and> r \<in> set rs \<and> strictly_inside r nu}"
  by (induction items) (auto simp: match_rows_def)

lemma tagged_in_match_rows:
  "tagged tr nu r \<in> set (match_rows items rs) \<longleftrightarrow>
     (\<exists>r' \<in> set rs. (tr, nu) \<in> set items \<and> strictly_inside r' nu \<and> tagged tr nu r' = tagged tr nu r)"
proof -
  have inj: "tagged tr' nu' r' = tagged tr nu r \<Longrightarrow> tr' = tr \<and> nu' = nu" for tr' nu' r'
    by (auto simp: tagged_def dest: fun_cong [where x = "''SiO_transition''"]
                                     fun_cong [where x = "''SiO_freq_GHz''"])
  show ?thesis
  proof
    assume "tagged tr nu r \<in> set (match_rows items rs)"
    then obtain tr' nu' r' where eq: "tagged tr' nu' r' = tagged tr nu r"
      and mem: "(tr', nu') \<in> set items" "r' \<in> set rs" "strictly_inside r' nu'"
      unfolding set_match_rows by force
    from inj [OF eq] have "tr' = tr" "nu' = nu" by simp_all
    with eq mem show "\<exists>r' \<in> set rs. (tr, nu) \<in> set items \<and> strictly_inside r' nu
                        \<and> tagged tr nu r' = tagged tr nu r"
      by blast
  next
    assume "\<exists>r' \<in> set rs. (tr, nu) \<in> set items \<and> strictly_inside r' nu
               \<and> tagged tr nu r' = tagged tr nu r"
    then obtain r' where "r' \<in> set rs" "(tr, nu) \<in> set items" "strictly_inside r' nu"
      "tagged tr nu r' = tagged tr nu r" by blast
    then have "\<exists>tr' nu' r''. tagged tr nu r = tagged tr' nu' r'' \<and> (tr', nu') \<in> set items
                 \<and> r'' \<in> set rs \<and> strictly_inside r'' nu'"
      by metis
    then show "tagged tr nu r \<in> set (match_rows items rs)"
      unfolding set_match_rows by simp
  qed
qed

lemma tagged_same_window:
  assumes "tagged tr nu r' = tagged tr nu r"
  shows "strictly_inside r' nu = strictly_inside r nu"
proof -
  have "r' ''min_freq_GHz'' = r ''min_freq_GHz''" "r' ''max_freq_GHz'' = r ''max_freq_GHz''"
    using fun_cong [OF assms, of "''min_freq_GHz''"] fun_cong [OF assms, of "''max_freq_GHz''"]
    by (simp_all add: tagged_def)
  then show ?thesis by (simp add: strictly_inside_def)
qed

text \<open>
  C1.  For every transition \<open>(tr, nu)\<close> of the transition table and every record \<open>r\<close> of a
  harmonized table, \<open>r\<close> tagged with that transition is a row of the matcher's output if
  and only if \<open>r.min_freq_GHz < nu\<close> and \<open>nu < r.max_freq_GHz\<close>, strictly on both sides; a
  record whose \<open>min_freq_GHz\<close> or \<open>max_freq_GHz\<close> equals the transition frequency is not
  matched.  The matcher does not fail on such a table.
\<close>

theorem matcher_strict_bracket:
  assumes "matchable df" "(tr, nu) \<in> set SIO_V0_TRANSITIONS_GHZ" "r \<in> set (rows df)"
  shows "\<exists>out. find_sio_spw_matches df = Inr out
           \<and> (r(''SiO_transition'' \<mapsto> Str tr, ''SiO_freq_GHz'' \<mapsto> Flt nu) \<in> set (rows out)
                \<longleftrightarrow> (\<exists>a b. r ''min_freq_GHz'' = Some (Flt a) \<and> r ''max_freq_GHz'' = Some (Flt b)
                            \<and> a < nu \<and> nu < b))
           \<and> (r ''min_freq_GHz'' = Some (Flt nu) \<or> r ''max_freq_GHz'' = Some (Flt nu)
                \<longrightarrow> r(''SiO_transition'' \<mapsto> Str tr, ''SiO_freq_GHz'' \<mapsto> Flt nu) \<notin> set (rows out))"
proof -
  from find_sio_spw_matches_closed [OF assms(1)] obtain out
    where out: "find_sio_spw_matches df = Inr out"
      and rws: "rows out = match_rows SIO_V0_TRANSITIONS_GHZ (rows df)"
    by blast
  have "tagged tr nu r \<in> set (rows out) \<longleftrightarrow> strictly_inside r nu"
    unfolding rws tagged_in_match_rows using assms(2,3) by (auto dest: tagged_same_window)
  then have iff: "r(''SiO_transition'' \<mapsto> Str tr, ''SiO_freq_GHz'' \<mapsto> Flt nu) \<in> set (rows out)
       \<longleftrightarrow> (\<exists>a b. r ''min_freq_GHz'' = Some (Flt a) \<and> r ''max_freq_GHz'' = Some (Flt b) \<and> a < nu \<and> nu < b)"
    by (simp add: tagged_def strictly_inside_iff)
  with out show ?thesis by auto
qed

theorem matcher_strict_bracket_witness:
  "\<exists>out. find_sio_spw_matches
            \<lparr>columns = [''Source'', ''min_freq_GHz'', ''max_freq_GHz''],
             rows = [[''Source'' \<mapsto> Str ''AS 209'', ''min_freq_GHz'' \<mapsto> Flt 43.423864, ''max_freq_GHz'' \<mapsto> Flt 44],
                     [''Source'' \<mapsto> Str ''AS 209'', ''min_freq_GHz'' \<mapsto> Flt 43, ''max_freq_GHz'' \<mapsto> Flt 44]]\<rparr> = Inr out
      \<and> [''Source'' \<mapsto> Str ''AS 209'', ''min_freq_GHz'' \<mapsto> Flt 43.423864, ''max_freq_GHz'' \<mapsto> Flt 44,
          ''SiO_transition'' \<mapsto> Str ''J=1-0'', ''SiO_freq_GHz'' \<mapsto> Flt 43.423864] \<notin> set (rows out)
      \<and> [''Source'' \<mapsto> Str ''AS 209'', ''min_freq_GHz'' \<mapsto> Flt 43, ''max_freq_GHz'' \<mapsto> Flt 44,
          ''SiO_transition'' \<mapsto> Str ''J=1-0'', ''SiO_freq_GHz'' \<mapsto> Flt 43.423864] \<in> set (rows out)"
proof -
  let ?r1 = "[''Source'' \<mapsto> Str ''AS 209'', ''min_freq_GHz'' \<mapsto> Flt 43.423864, ''max_freq_GHz'' \<mapsto> Flt 44]"
  let ?r2 = "[''Source'' \<mapsto> Str ''AS 209'', ''min_freq_GHz'' \<mapsto> Flt 43, ''max_freq_GHz'' \<mapsto> Flt 44]"
  let ?df = "\<lparr>columns = [''Source'', ''min_freq_GHz'', ''max_freq_GHz''], rows = [?r1, ?r2]\<rparr>"
  have m: "matchable ?df"
    by (auto simp: matchable_def wf_frame_def numeric_column_def cell_at_def)
  have t: "(''J=1-0'', 43.423864) \<in> set SIO_V0_TRANSITIONS_GHZ"
    by (simp add: SIO_V0_TRANSITIONS_GHZ_def)
  have r1: "?r1 \<in> set (rows ?df)" and r2: "?r2 \<in> set (rows ?df)" by simp_all
  from matcher_strict_bracket [OF m t r1] matcher_strict_bracket [OF m t r2]
  show ?thesis by auto
qed

text \<open>Exchanging the two nested iterations leaves the multiset of results unchanged.\<close>

lemma mset_concat_append:
  "mset (concat (map (\<lambda>y. g y @ h y) ys)) = mset (concat (map g ys)) + mset (concat (map h ys))"
  by (induction ys) auto

lemma mset_concat_singletons:
  "mset (concat (map (\<lambda>y. if P y then [f y] else []) ys)) = mset (map f (filter P ys))"
  by (induction ys) auto

lemma mset_swap_nested:
  "mset (concat (map (\<lambda>y. map (f y) (filter (P y) xs)) ys))
     = mset (concat (map (\<lambda>x. map (\<lambda>y. f y x) (filter (\<lambda>y. P y x) ys)) xs))"
proof (induction xs)
  case Nil
  then show ?case by (induction ys) auto
next
  case (Cons x xs)
  have "(\<lambda>y. map (f y) (filter (P y) (x # xs)))
          = (\<lambda>y. (if P y x then [f y x] else []) @ map (f y) (filter (P y) xs))"
    by auto
  then show ?case
    by (simp add: mset_concat_append mset_concat_singletons Cons.IH)
qed

text \<open>
  C2.  The matcher's output consists, for every record \<open>r\<close> of the table (with its
  multiplicity), of exactly one MatchRecord for each transition of the table whose
  frequency lies strictly inside the window of \<open>r\<close>, and of nothing else.  Each of them is
  \<open>r\<close> with the transition label and the transition frequency added, so that the
  MatchRecords of one record agree in every other field: a record covering two
  transitions yields exactly two, a record covering none yields none.
\<close>

theorem matcher_one_record_per_covered_transition:
  assumes "matchable df"
  shows "\<exists>out. find_sio_spw_matches df = Inr out
           \<and> mset (rows out) =
               mset (concat (map (\<lambda>r. map (\<lambda>(tr, nu). r(''SiO_transition'' \<mapsto> Str tr, ''SiO_freq_GHz'' \<mapsto> Flt nu))
                                          (filter (\<lambda>(tr, nu). \<exists>a b. r ''min_freq_GHz'' = Some (Flt a)
                                                       \<and> r ''max_freq_GHz'' = Some (Flt b) \<and> a < nu \<and> nu < b)
                                                  SIO_V0_TRANSITIONS_GHZ))
                                (rows df)))"
proof -
  from find_sio_spw_matches_closed [OF assms] obtain out
    where out: "find_sio_spw_matches df = Inr out"
      and rws: "rows out = match_rows SIO_V0_TRANSITIONS_GHZ (rows df)"
    by blast
  have "mset (rows out)
          = mset (concat (map (\<lambda>y. map (\<lambda>r. tagged (fst y) (snd y) r) (filter (\<lambda>r. strictly_inside r (snd y)) (rows df)))
                              SIO_V0_TRANSITIONS_GHZ))"
    by (simp add: rws match_rows_def split_def)
  also have "\<dots> = mset (concat (map (\<lambda>r. map (\<lambda>y. tagged (fst y) (snd y) r) (filter (\<lambda>y. strictly_inside r (snd y)) SIO_V0_TRANSITIONS_GHZ))
                              (rows df)))"
    by (rule mset_swap_nested)
  finally show ?thesis
    using out by (simp add: tagged_def strictly_inside_iff split_def)
qed

theorem matcher_one_record_per_covered_transition_witness:
  "\<exists>out. find_sio_spw_matches
            \<lparr>columns = [''Source'', ''min_freq_GHz'', ''max_freq_GHz''],
             rows = [[''Source'' \<mapsto> Str ''GM Aur'', ''min_freq_GHz'' \<mapsto> Flt 40, ''max_freq_GHz'' \<mapsto> Flt 90],
                     [''Source'' \<mapsto> Str ''GM Aur'', ''min_freq_GHz'' \<mapsto> Flt 90, ''max_freq_GHz'' \<mapsto> Flt 100]]\<rparr> = Inr out
      \<and> mset (rows out) =
          {#[''Source'' \<mapsto> Str ''GM Aur'', ''min_freq_GHz'' \<mapsto> Flt 40, ''max_freq_GHz'' \<mapsto> Flt 90,
             ''SiO_transition'' \<mapsto> Str ''J=1-0'', ''SiO_freq_GHz'' \<mapsto> Flt 43.423864],
            [''Source'' \<mapsto> Str ''GM Aur'', ''min_freq_GHz'' \<mapsto> Flt 40, ''max_freq_GHz'' \<mapsto> Flt 90,
             ''SiO_transition'' \<mapsto> Str ''J=2-1'', ''SiO_freq_GHz'' \<mapsto> Flt 86.846960]#}"
proof -
  let ?df = "\<lparr>columns = [''Source'', ''min_freq_GHz'', ''max_freq_GHz''],
              rows = [[''Source'' \<mapsto> Str ''GM Aur'', ''min_freq_GHz'' \<mapsto> Flt 40, ''max_freq_GHz'' \<mapsto> Flt 90],
                      [''Source'' \<mapsto> Str ''GM Aur'', ''min_freq_GHz'' \<mapsto> Flt 90, ''max_freq_GHz'' \<mapsto> Flt 100]]\<rparr>"
  have m: "matchable ?df"
    by (auto simp: matchable_def wf_frame_def numeric_column_def cell_at_def)
  from matcher_one_record_per_covered_transition [OF m]
  show ?thesis by (simp add: SIO_V0_TRANSITIONS_GHZ_def)
qed

section \<open>Properties of the target query stage\<close>

lemma query_loop_closed:
  "query_loop target sources all_obs = all_obs @ tagged_results target sources"
proof (induction sources arbitrary: all_obs)
  case Nil
  then show ?case by (simp add: tagged_results_def)
next
  case (Cons src sources)
  show ?case
    by (cases "target src") (simp_all add: Cons.IH tagged_results_def)
qed

lemma source_in_pd_concat:
  assumes "d \<in> set dfs" "c \<in> set (columns d)"
  shows "c \<in> set (columns (pd_concat dfs))"
  using assms by (auto simp: pd_concat_def Let_def)

text \<open>
  C7.  In the target query stage a target whose query fails, returns nothing or returns
  a table without rows is skipped, and the loop goes on with the remaining targets: the
  result is the concatenation of the tagged tables of all productive targets, in their
  order.  The stage fails, with the exhaustion error, if and only if no target of the
  input sequence produced any rows.
\<close>

theorem query_skips_failures:
  "query_maps_sources target sources =
     (if \<forall>src \<in> set sources. \<not> productive (target src)
      then Inl (RuntimeError ''No observations returned for any MAPS source.'')
      else Inr (pd_concat (tagged_results target sources)))
   \<and> ((\<exists>e. query_maps_sources target sources = Inl e) \<longleftrightarrow>
        (\<forall>src \<in> set sources. \<not> productive (target src)))"
proof -
  have loop: "query_loop target sources [] = tagged_results target sources"
    by (simp add: query_loop_closed)
  have empty: "tagged_results target sources = [] \<longleftrightarrow> (\<forall>src \<in> set sources. \<not> productive (target src))"
    by (auto simp: tagged_results_def filter_empty_conv)
  have src: "''Source'' \<in> set (columns (pd_concat (tagged_results target sources)))"
    if "tagged_results target sources \<noteq> []"
  proof -
    from that obtain d where d: "d \<in> set (tagged_results target sources)"
      by (cases "tagged_results target sources") auto
    then have "''Source'' \<in> set (columns d)"
      by (auto simp: tagged_results_def assign_def)
    with d show ?thesis by (rule source_in_pd_concat)
  qed
  have eq: "query_maps_sources target sources =
     (if \<forall>src \<in> set sources. \<not> productive (target src)
      then Inl (RuntimeError ''No observations returned for any MAPS source.'')
      else Inr (pd_concat (tagged_results target sources)))"
    using src empty by (simp add: query_maps_sources_def loop Let_def getitem_def)
  then show ?thesis by auto
qed

theorem query_skips_failures_witness:
  "query_maps_sources
     (\<lambda>src. if src = ''IM Lup'' then QueryFailed
           else if src = ''AS 209'' then Returned \<lparr>columns = [''obs_id''], rows = []\<rparr>
           else if src = ''GM Aur''
           then Returned \<lparr>columns = [''min_freq_GHz''], rows = [[''min_freq_GHz'' \<mapsto> Flt 100]]\<rparr>
           else ReturnedNone)
     MAPS_SOURCES
     = Inr (pd_concat [assign \<lparr>columns = [''min_freq_GHz''], rows = [[''min_freq_GHz'' \<mapsto> Flt 100]]\<rparr>
                         ''Source'' (Str ''GM Aur'')])
   \<and> query_maps_sources (\<lambda>src. if src = ''IM Lup'' then QueryFailed else ReturnedNone) MAPS_SOURCES
     = Inl (RuntimeError ''No observations returned for any MAPS source.'')"
  using query_skips_failures
          [of "\<lambda>src. if src = ''IM Lup'' then QueryFailed
                    else if src = ''AS 209'' then Returned \<lparr>columns = [''obs_id''], rows = []\<rparr>
                    else if src = ''GM Aur''
                    then Returned \<lparr>columns = [''min_freq_GHz''], rows = [[''min_freq_GHz'' \<mapsto> Flt 100]]\<rparr>
                    else ReturnedNone" MAPS_SOURCES]
        query_skips_failures
          [of "\<lambda>src. if src = ''IM Lup'' then QueryFailed else ReturnedNone" MAPS_SOURCES]
  by (simp add: MAPS_SOURCES_def tagged_results_def len_def)

section \<open>Properties of the main program\<close>

lemma find_sio_spw_matches_none:
  assumes "matchable df"
    and "\<forall>(tr, nu) \<in> set SIO_V0_TRANSITIONS_GHZ. \<forall>r \<in> set (rows df). \<not> strictly_inside r nu"
  shows "find_sio_spw_matches df = Inr empty_frame"
proof -
  have "filter (\<lambda>(tr, nu). \<exists>r \<in> set (rows df). strictly_inside r nu) SIO_V0_TRANSITIONS_GHZ = []"
    using assms(2) by (auto simp: filter_empty_conv)
  then have "match_loop df SIO_V0_TRANSITIONS_GHZ [] = Inr []"
    using match_loop_closed [OF assms(1), of SIO_V0_TRANSITIONS_GHZ "[]"] by simp
  then show ?thesis by (simp add: find_sio_spw_matches_def)
qed

lemma dom_reindex_row [simp]: "dom (reindex_row cols r) = set cols"
  by (auto simp: reindex_row_def split: if_splits)

lemma wf_assign: "wf_frame df \<Longrightarrow> wf_frame (assign df c v)"
  by (auto simp: wf_frame_def assign_def)

lemma wf_copy_column: "wf_frame df \<Longrightarrow> wf_frame (copy_column df c d)"
  by (auto simp: wf_frame_def copy_column_def)

lemma wf_pd_concat: "wf_frame (pd_concat dfs)"
  by (auto simp: wf_frame_def pd_concat_def Let_def)

text \<open>
  C8.  If no record's frequency window strictly brackets any frequency of the
  transition table, the matcher returns the empty table, and the run ends normally,
  not with an error, without having written any file.
\<close>

theorem no_match_writes_nothing:
  assumes "query_maps_sources target MAPS_SOURCES = Inr obs0"
    and "harmonize_columns obs0 = Inr obs"
    and "matchable obs"
    and "\<forall>(tr, nu) \<in> set SIO_V0_TRANSITIONS_GHZ. \<forall>r \<in> set (rows obs). \<not> strictly_inside r nu"
  shows "find_sio_spw_matches obs = Inr empty_frame \<and> is_empty empty_frame
         \<and> main target = ([], Inr ())"
proof -
  have none: "find_sio_spw_matches obs = Inr empty_frame"
    using assms(3,4) by (rule find_sio_spw_matches_none)
  have emp: "is_empty empty_frame"
    by (simp add: is_empty_def empty_frame_def)
  show ?thesis
    by (simp add: main_def assms(1,2) none emp)
qed

theorem no_match_writes_nothing_witness:
  "\<exists>obs0 obs.
     query_maps_sources
       (\<lambda>src. if src = ''GM Aur''
             then Returned \<lparr>columns = [''min_freq_GHz'', ''max_freq_GHz'', ''member_ous_uid''],
                            rows = [[''min_freq_GHz'' \<mapsto> Flt 100, ''max_freq_GHz'' \<mapsto> Flt 101,
                                     ''member_ous_uid'' \<mapsto> Str ''uid://A001/X1/X2'']]\<rparr>
             else QueryFailed)
       MAPS_SOURCES = Inr obs0
     \<and> harmonize_columns obs0 = Inr obs
     \<and> matchable obs
     \<and> (\<forall>(tr, nu) \<in> set SIO_V0_TRANSITIONS_GHZ. \<forall>r \<in> set (rows obs). \<not> strictly_inside r nu)
     \<and> find_sio_spw_matches obs = Inr empty_frame
     \<and> main (\<lambda>src. if src = ''GM Aur''
             then Returned \<lparr>columns = [''min_freq_GHz'', ''max_freq_GHz'', ''member_ous_uid''],
                            rows = [[''min_freq_GHz'' \<mapsto> Flt 100, ''max_freq_GHz'' \<mapsto> Flt 101,
                                     ''member_ous_uid'' \<mapsto> Str ''uid://A001/X1/X2'']]\<rparr>
             else QueryFailed) = ([], Inr ())"
proof -
  let ?r = "[''min_freq_GHz'' \<mapsto> Flt 100, ''max_freq_GHz'' \<mapsto> Flt 101,
             ''member_ous_uid'' \<mapsto> Str ''uid://A001/X1/X2'']"
  let ?target = "\<lambda>src. if src = ''GM Aur''
             then Returned \<lparr>columns = [''min_freq_GHz'', ''max_freq_GHz'', ''member_ous_uid''], rows = [?r]\<rparr>
             else QueryFailed"
  let ?cols = "[''min_freq_GHz'', ''max_freq_GHz'', ''member_ous_uid'', ''Source'']"
  let ?rr = "reindex_row ?cols (?r(''Source'' \<mapsto> Str ''GM Aur''))"
  let ?raw = "\<lparr>columns = ?cols, rows = [?rr]\<rparr>"
  let ?mid = "assign ?raw ''ang_res_arcsec'' NaN"
  let ?obs = "copy_column ?mid ''MOUS_ID'' ''member_ous_uid''"
  have q: "query_maps_sources ?target MAPS_SOURCES = Inr ?raw"
    by (simp add: query_maps_sources_def MAPS_SOURCES_def len_def pd_concat_def unique_def
                  assign_def add_column_def getitem_def Let_def)
  have h: "harmonize_columns ?raw = Inr ?obs"
    by (simp add: harmonize_columns_def Let_def assign_def add_column_def copy_column_def)
  have "wf_frame ?raw"
    by (simp add: wf_frame_def)
  then have wf: "wf_frame ?obs"
    by (intro wf_copy_column wf_assign)
  have cs: "columns ?obs = ?cols @ [''ang_res_arcsec'', ''MOUS_ID'']"
    by (simp add: assign_def add_column_def copy_column_def)
  have rs: "map (\<lambda>r. (r ''min_freq_GHz'', r ''max_freq_GHz'')) (rows ?obs) = [(Some (Flt 100), Some (Flt 101))]"
    by (simp add: assign_def copy_column_def reindex_row_def cell_at_def)
  have m: "matchable ?obs"
    unfolding matchable_def numeric_column_def cs using wf rs
    by (simp add: assign_def copy_column_def cell_at_def)
  have n: "\<forall>(tr, nu) \<in> set SIO_V0_TRANSITIONS_GHZ. \<forall>r \<in> set (rows ?obs). \<not> strictly_inside r nu"
    using rs by (simp add: SIO_V0_TRANSITIONS_GHZ_def strictly_inside_def assign_def copy_column_def)
  from no_match_writes_nothing [OF q h m n] q h m n
  show ?thesis by blast
qed

section \<open>Properties of the per-group builder\<close>

text \<open>
  The reductions in closed form.  On a series without missing values \<^verbatim>\<open>join_unique\<close> does
  not fail, and its result is the comma-joined list of the sorted, duplicate-free string
  representations of the values.
\<close>

lemma sort_unique_sorted_list_of_set:
  "sort (unique xs) = sorted_list_of_set (set xs)"
proof -
  have "sort (unique xs) = sort (remdups (unique xs))"
    by (simp add: distinct_remdups_id)
  also have "\<dots> = sorted_list_of_set (set (unique xs))"
    by (simp only: sorted_list_of_set_sort_remdups)
  finally show ?thesis by simp
qed

lemma those_map_Some: "those (map Some xs) = Some xs"
  by (induction xs) auto

lemma remdups_map_inj: "inj f \<Longrightarrow> remdups (map f xs) = map f (remdups xs)"
  by (induction xs) (auto simp: inj_def)

lemma unique_map_Some: "unique (map Some xs) = map Some (unique xs)"
proof -
  have "remdups (rev (map Some xs)) = remdups (map Some (rev xs))"
    by (simp add: rev_map)
  also have "\<dots> = map Some (remdups (rev xs))"
    by (rule remdups_map_inj) simp
  finally show ?thesis
    by (simp add: unique_def rev_map)
qed

lemma cell_str_present: "c \<noteq> NaN \<Longrightarrow> cell_str c = Some (the (cell_str c))"
  by (cases c) auto

lemma printable_present: "printable c \<Longrightarrow> c \<noteq> NaN"
  by (cases c) auto

lemma join_unique_joined:
  assumes "NaN \<notin> set series"
  shows "join_unique series = Inr (joined series)"
proof -
  let ?texts = "map (\<lambda>c. the (cell_str c)) series"
  have strs: "map cell_str series = map Some ?texts"
    using assms by (auto intro: cell_str_present)
  then have img: "cell_str ` set series = Some ` set ?texts"
    by (metis list.set_map)
  have "those (unique (map cell_str series)) = Some (unique ?texts)"
    by (simp only: strs unique_map_Some those_map_Some)
  moreover have "sort (unique ?texts) = sorted_list_of_set (Option.these (cell_str ` set series))"
    by (simp only: sort_unique_sorted_list_of_set img Option.these_image_Some_eq)
  ultimately show ?thesis
    by (simp add: join_unique_def joined_def)
qed

lemma joined_as_strings:
  assumes "NaN \<notin> set series"
  shows "\<exists>xs. joined series = Str (join '', '' xs) \<and> sorted xs \<and> distinct xs
           \<and> Some ` set xs = cell_str ` set series"
proof -
  let ?A = "Option.these (cell_str ` set series)"
  have fin: "finite ?A"
    by (simp add: Option.these_def)
  have "x \<noteq> None" if "x \<in> cell_str ` set series" for x
  proof -
    from that obtain c where "c \<in> set series" "x = cell_str c" by blast
    with assms have "c \<noteq> NaN" by blast
    then show ?thesis using \<open>x = cell_str c\<close> by (cases c) simp_all
  qed
  then have "{x \<in> cell_str ` set series. x \<noteq> None} = cell_str ` set series"
    by blast
  then have "Some ` ?A = cell_str ` set series"
    by (simp only: Option.Some_image_these_eq)
  with fin show ?thesis
    by (intro exI [of _ "sorted_list_of_set ?A"]) (simp add: joined_def)
qed

lemma not_Str_cases: "\<not> is_Str c \<Longrightarrow> c \<noteq> NaN \<Longrightarrow> is_Flt c"
  by (cases c) auto

lemma reduce_min_numeric:
  assumes "\<forall>c \<in> set series. \<not> is_Str c"
  shows "reduce_min series =
           Inr (if dropna series = [] then NaN else Flt (Min (flt_val ` set (dropna series))))"
proof -
  have "list_all is_Flt (dropna series)"
    using assms by (auto simp: list_all_iff dropna_def intro: not_Str_cases)
  then show ?thesis by (simp add: reduce_min_def Let_def)
qed

lemma reduce_max_numeric:
  assumes "\<forall>c \<in> set series. \<not> is_Str c"
  shows "reduce_max series =
           Inr (if dropna series = [] then NaN else Flt (Max (flt_val ` set (dropna series))))"
proof -
  have "list_all is_Flt (dropna series)"
    using assms by (auto simp: list_all_iff dropna_def intro: not_Str_cases)
  then show ?thesis by (simp add: reduce_max_def Let_def)
qed

lemma dropna_all_Flt: "\<forall>c \<in> set series. is_Flt c \<Longrightarrow> dropna series = series"
  by (induction series) (auto simp: dropna_def)

lemma is_Flt_not_Str: "is_Flt c \<Longrightarrow> \<not> is_Str c"
  by (cases c) auto

lemma dropna_empty_iff: "dropna s = [] \<longleftrightarrow> (\<forall>c \<in> set s. c = NaN)"
  by (auto simp: dropna_def filter_empty_conv)

lemma set_dropna: "set (dropna s) = set s - {NaN}"
  by (auto simp: dropna_def)

lemma collect_map_Inr:
  "\<forall>x \<in> set xs. f x = Inr (g x) \<Longrightarrow> collect (map f xs) = Inr (map g xs)"
  by (induction xs) auto

text \<open>On a table of MatchRecords no reduction fails, and the builder has a closed form.\<close>

lemma set_group_keys: "set (group_keys df) = set (column_of ''MOUS_ID'' (rows df)) - {NaN}"
  by (auto simp: group_keys_def dropna_def)

lemma distinct_group_keys: "distinct (group_keys df)"
  by (simp add: group_keys_def)

lemma group_row_closed:
  assumes "summarizable df" "k \<in> set (group_keys df)"
  shows "group_row df ''MOUS_ID''
           [(''Source'', JoinUnique), (''project_code'', JoinUnique), (''band_list'', JoinUnique),
            (''min_freq_GHz'', MinOf), (''max_freq_GHz'', MaxOf), (''SiO_transition'', JoinUnique),
            (''SiO_freq_GHz'', JoinUnique), (''ang_res_arcsec'', MinOf)] k
         = Inr (grouped_row df k)"
proof -
  let ?grp = "filter (\<lambda>r. cell_at r ''MOUS_ID'' = k) (rows df)"
  from assms(2) have ne: "?grp \<noteq> []"
    by (auto simp: set_group_keys column_of_def filter_empty_conv)
  have fl: "\<forall>c \<in> set (map (\<lambda>r. cell_at r ''min_freq_GHz'') ?grp). is_Flt c"
       "\<forall>c \<in> set (map (\<lambda>r. cell_at r ''max_freq_GHz'') ?grp). is_Flt c"
       "\<forall>c \<in> set (map (\<lambda>r. cell_at r ''ang_res_arcsec'') ?grp). \<not> is_Str c"
    using assms(1) by (auto simp: summarizable_def)
  have mn: "reduce_min (map (\<lambda>r. cell_at r ''min_freq_GHz'') ?grp)
              = Inr (Flt (Min (flt_val ` set (map (\<lambda>r. cell_at r ''min_freq_GHz'') ?grp))))"
    using fl(1) ne by (subst reduce_min_numeric) (auto simp: dropna_all_Flt dest: is_Flt_not_Str)
  have mx: "reduce_max (map (\<lambda>r. cell_at r ''max_freq_GHz'') ?grp)
              = Inr (Flt (Max (flt_val ` set (map (\<lambda>r. cell_at r ''max_freq_GHz'') ?grp))))"
    using fl(2) ne by (subst reduce_max_numeric) (auto simp: dropna_all_Flt dest: is_Flt_not_Str)
  note ar = reduce_min_numeric [OF fl(3)]
  have ju: "join_unique (map (\<lambda>r. cell_at r c) ?grp) = Inr (joined (map (\<lambda>r. cell_at r c) ?grp))"
    if "c \<in> {''Source'', ''project_code'', ''band_list'', ''SiO_transition'', ''SiO_freq_GHz''}" for c
  proof (rule join_unique_joined)
    have "NaN \<noteq> cell_at r c" if "r \<in> set (rows df)" for r
    proof (rule not_sym, rule printable_present)
      show "printable (cell_at r c)"
        using assms(1) that \<open>c \<in> _\<close> by (auto simp: summarizable_def)
    qed
    then show "NaN \<notin> set (map (\<lambda>r. cell_at r c) ?grp)"
      by auto
  qed
  show ?thesis
    unfolding group_row_def grouped_row_def group_of_def column_of_def Let_def
    by (simp add: mn mx ar ju del: map_of.simps set_map)
qed

lemma groupby_agg_closed:
  assumes "summarizable df"
  shows "groupby_agg df ''MOUS_ID''
           [(''Source'', JoinUnique), (''project_code'', JoinUnique), (''band_list'', JoinUnique),
            (''min_freq_GHz'', MinOf), (''max_freq_GHz'', MaxOf), (''SiO_transition'', JoinUnique),
            (''SiO_freq_GHz'', JoinUnique), (''ang_res_arcsec'', MinOf)]
         = Inr \<lparr>columns = [''MOUS_ID'', ''Source'', ''project_code'', ''band_list'', ''min_freq_GHz'',
                            ''max_freq_GHz'', ''SiO_transition'', ''SiO_freq_GHz'', ''ang_res_arcsec''],
                 rows = map (grouped_row df) (group_keys df)\<rparr>"
proof -
  let ?spec = "[(''Source'', JoinUnique), (''project_code'', JoinUnique), (''band_list'', JoinUnique),
            (''min_freq_GHz'', MinOf), (''max_freq_GHz'', MaxOf), (''SiO_transition'', JoinUnique),
            (''SiO_freq_GHz'', JoinUnique), (''ang_res_arcsec'', MinOf)]"
  have cols: "''MOUS_ID'' \<in> set (columns df)"
     "\<not> list_ex (\<lambda>c. c \<notin> set (columns df)) (map fst ?spec)"
    using assms by (simp_all add: summarizable_def)
  have "collect (map (group_row df ''MOUS_ID'' ?spec) (group_keys df))
          = Inr (map (grouped_row df) (group_keys df))"
    by (rule collect_map_Inr) (simp add: group_row_closed [OF assms])
  then show ?thesis
    unfolding groupby_agg_def Let_def group_keys_def [symmetric, unfolded column_of_def]
    using cols by simp
qed

lemma summary_row_key: "cell_at (summary_row df k) ''MOUS_ID'' = k"
  by (simp add: summary_row_def cell_at_def Let_def)

lemma build_per_mous_table_closed:
  assumes "summarizable df"
  shows "build_per_mous_table df =
           Inr \<lparr>columns = [''MOUS_ID'', ''Source'', ''Project'', ''ALMA_Band'', ''min_freq_GHz'',
                            ''max_freq_GHz'', ''SiO_transitions'', ''SiO_freqs_GHz'', ''ang_res_arcsec''],
                 rows = sort_key (\<lambda>r. map (\<lambda>c. cell_key (cell_at r c)) [''Source'', ''Project''])
                          (map (summary_row df) (group_keys df))\<rparr>"
proof -
  let ?m = "[(''project_code'', ''Project''), (''band_list'', ''ALMA_Band''),
             (''SiO_transition'', ''SiO_transitions''), (''SiO_freq_GHz'', ''SiO_freqs_GHz'')]"
  let ?g = "\<lparr>columns = [''MOUS_ID'', ''Source'', ''project_code'', ''band_list'', ''min_freq_GHz'',
                            ''max_freq_GHz'', ''SiO_transition'', ''SiO_freq_GHz'', ''ang_res_arcsec''],
                 rows = map (grouped_row df) (group_keys df)\<rparr>"
  let ?r = "\<lparr>columns = [''MOUS_ID'', ''Source'', ''Project'', ''ALMA_Band'', ''min_freq_GHz'',
                            ''max_freq_GHz'', ''SiO_transitions'', ''SiO_freqs_GHz'', ''ang_res_arcsec''],
                 rows = map (summary_row df) (group_keys df)\<rparr>"
  have ren: "rename ?g ?m = ?r"
    by (auto simp: rename_def rename_col_def fun_eq_iff grouped_row_def summary_row_def
                   cell_at_def Let_def)
  have "sort_values ?r [''Source'', ''Project''] =
          Inr \<lparr>columns = columns ?r,
                rows = sort_key (\<lambda>r. map (\<lambda>c. cell_key (cell_at r c)) [''Source'', ''Project'']) (rows ?r)\<rparr>"
    unfolding sort_values_def by simp
  then show ?thesis
    by (simp add: build_per_mous_table_def groupby_agg_closed [OF assms] ren del: map_of.simps)
qed

lemma summary_row_ids:
  assumes "summarizable df" "build_per_mous_table df = Inr out" "g \<in> set (rows out)"
  shows "cell_at g ''MOUS_ID'' \<in> set (column_of ''MOUS_ID'' (rows df)) - {NaN}"
proof -
  from assms(2) have "rows out = sort_key (\<lambda>r. map (\<lambda>c. cell_key (cell_at r c)) [''Source'', ''Project''])
                          (map (summary_row df) (group_keys df))"
    unfolding build_per_mous_table_closed [OF assms(1)] by auto
  with assms(3) obtain k where "k \<in> set (group_keys df)" "g = summary_row df k"
    by auto
  then show ?thesis
    by (simp add: summary_row_key set_group_keys)
qed

text \<open>
  The hypothesis of the statements below describes the tables that the matcher hands to
  the builder: a non-empty output of the matcher on a harmonized table whose sources,
  project codes and bands are present is such a table.
\<close>

lemma table_positional: "\<forall>(tr, nu) \<in> set SIO_V0_TRANSITIONS_GHZ. positional nu"
  by (simp add: SIO_V0_TRANSITIONS_GHZ_def positional_def)

lemma matcher_output_summarizable:
  assumes "matchable obs"
    and "{''MOUS_ID'', ''project_code'', ''band_list'', ''ang_res_arcsec''} \<subseteq> set (columns obs)"
    and "\<forall>r \<in> set (rows obs). \<not> is_Str (cell_at r ''ang_res_arcsec'')
            \<and> printable (cell_at r ''Source'') \<and> printable (cell_at r ''project_code'')
            \<and> printable (cell_at r ''band_list'')"
    and "find_sio_spw_matches obs = Inr m" "\<not> is_empty m"
  shows "summarizable m"
proof -
  from find_sio_spw_matches_closed [OF assms(1)] assms(4)
  have rws: "rows m = match_rows SIO_V0_TRANSITIONS_GHZ (rows obs)"
    by auto
  have cols: "set (columns m) = insert ''SiO_transition'' (insert ''SiO_freq_GHz'' (set (columns obs)))"
    using assms(1,4,5) by (rule find_sio_spw_matches_columns)
  have cells: "is_Flt (cell_at g ''min_freq_GHz'') \<and> is_Flt (cell_at g ''max_freq_GHz'')
          \<and> \<not> is_Str (cell_at g ''ang_res_arcsec'')
          \<and> printable (cell_at g ''Source'') \<and> printable (cell_at g ''project_code'')
          \<and> printable (cell_at g ''band_list'') \<and> printable (cell_at g ''SiO_transition'')
          \<and> printable (cell_at g ''SiO_freq_GHz'')" if "g \<in> set (rows m)" for g
  proof -
    from that obtain tr nu r where g: "g = tagged tr nu r" and r: "r \<in> set (rows obs)"
      and ins: "strictly_inside r nu" and item: "(tr, nu) \<in> set SIO_V0_TRANSITIONS_GHZ"
      unfolding rws set_match_rows by blast
    from item have pos: "positional nu"
      using table_positional by blast
    from ins obtain a b where "r ''min_freq_GHz'' = Some (Flt a)" "r ''max_freq_GHz'' = Some (Flt b)"
      unfolding strictly_inside_iff by blast
    moreover have "\<not> is_Str (cell_at r ''ang_res_arcsec'')" "printable (cell_at r ''Source'')"
      "printable (cell_at r ''project_code'')" "printable (cell_at r ''band_list'')"
      using assms(3) r by blast+
    ultimately show ?thesis
      using pos by (simp add: g tagged_def cell_at_def)
  qed
  have "''Source'' \<in> set (columns obs)" "''min_freq_GHz'' \<in> set (columns obs)"
    "''max_freq_GHz'' \<in> set (columns obs)"
    using assms(1) by (simp_all add: matchable_def numeric_column_def)
  with assms(2) have "set [''MOUS_ID'', ''Source'', ''project_code'', ''band_list'', ''min_freq_GHz'',
           ''max_freq_GHz'', ''SiO_transition'', ''SiO_freq_GHz'', ''ang_res_arcsec'']
        \<subseteq> set (columns m)"
    unfolding cols by simp
  with cells show ?thesis
    unfolding summarizable_def by blast
qed

text \<open>
  C3.  The per-group builder groups the rows of a table of MatchRecords by \<open>MOUS_ID\<close>.
  For every identifier \<open>k\<close> of the table the summary has a row for \<open>k\<close> in which the
  source names, project codes, bands, transition labels and transition frequencies are
  each the comma-joined list of the sorted, duplicate-free string representations of the
  group's values; the minimum frequency is the minimum of \<open>min_freq_GHz\<close> over the group,
  the maximum frequency the maximum of \<open>max_freq_GHz\<close> over the group, and the angular
  resolution the minimum over the group's resolutions that are not missing (missing if
  all are).  The table is one whose joined columns hold no missing value and only
  floats of the positional range; on it the builder does not fail.
\<close>

theorem per_group_reductions:
  assumes "summarizable df" "k \<noteq> NaN" "k \<in> set (column_of ''MOUS_ID'' (rows df))"
  shows "\<exists>out g. build_per_mous_table df = Inr out \<and> g \<in> set (rows out)
           \<and> g ''MOUS_ID'' = Some k
           \<and> g ''Source'' = Some (Str (join '', '' (sorted_list_of_set
                 (Option.these (cell_str ` set (column_of ''Source'' (group_of df k)))))))
           \<and> g ''Project'' = Some (Str (join '', '' (sorted_list_of_set
                 (Option.these (cell_str ` set (column_of ''project_code'' (group_of df k)))))))
           \<and> g ''ALMA_Band'' = Some (Str (join '', '' (sorted_list_of_set
                 (Option.these (cell_str ` set (column_of ''band_list'' (group_of df k)))))))
           \<and> g ''SiO_transitions'' = Some (Str (join '', '' (sorted_list_of_set
                 (Option.these (cell_str ` set (column_of ''SiO_transition'' (group_of df k)))))))
           \<and> g ''SiO_freqs_GHz'' = Some (Str (join '', '' (sorted_list_of_set
                 (Option.these (cell_str ` set (column_of ''SiO_freq_GHz'' (group_of df k)))))))
           \<and> g ''min_freq_GHz'' = Some (Flt (Min (flt_val ` set (column_of ''min_freq_GHz'' (group_of df k)))))
           \<and> g ''max_freq_GHz'' = Some (Flt (Max (flt_val ` set (column_of ''max_freq_GHz'' (group_of df k)))))
           \<and> g ''ang_res_arcsec'' = Some
                 (if \<forall>c \<in> set (column_of ''ang_res_arcsec'' (group_of df k)). c = NaN then NaN
                  else Flt (Min (flt_val ` (set (column_of ''ang_res_arcsec'' (group_of df k)) - {NaN}))))"
proof -
  let ?key = "\<lambda>r. map (\<lambda>c. cell_key (cell_at r c)) [''Source'', ''Project'']"
  let ?out = "\<lparr>columns = [''MOUS_ID'', ''Source'', ''Project'', ''ALMA_Band'', ''min_freq_GHz'',
                            ''max_freq_GHz'', ''SiO_transitions'', ''SiO_freqs_GHz'', ''ang_res_arcsec''],
                 rows = sort_key ?key (map (summary_row df) (group_keys df))\<rparr>"
  have out: "build_per_mous_table df = Inr ?out"
    by (rule build_per_mous_table_closed [OF assms(1)])
  have "k \<in> set (group_keys df)"
    using assms(2,3) by (simp add: set_group_keys)
  then have mem: "summary_row df k \<in> set (rows ?out)"
    by simp
  have fields: "summary_row df k ''MOUS_ID'' = Some k"
    "summary_row df k ''Source'' = Some (joined (column_of ''Source'' (group_of df k)))"
    "summary_row df k ''Project'' = Some (joined (column_of ''project_code'' (group_of df k)))"
    "summary_row df k ''ALMA_Band'' = Some (joined (column_of ''band_list'' (group_of df k)))"
    "summary_row df k ''SiO_transitions'' = Some (joined (column_of ''SiO_transition'' (group_of df k)))"
    "summary_row df k ''SiO_freqs_GHz'' = Some (joined (column_of ''SiO_freq_GHz'' (group_of df k)))"
    "summary_row df k ''min_freq_GHz'' = Some (Flt (Min (flt_val ` set (column_of ''min_freq_GHz'' (group_of df k)))))"
    "summary_row df k ''max_freq_GHz'' = Some (Flt (Max (flt_val ` set (column_of ''max_freq_GHz'' (group_of df k)))))"
    "summary_row df k ''ang_res_arcsec'' = Some
        (if dropna (column_of ''ang_res_arcsec'' (group_of df k)) = [] then NaN
         else Flt (Min (flt_val ` set (dropna (column_of ''ang_res_arcsec'' (group_of df k))))))"
    by (simp_all add: summary_row_def Let_def)
  show ?thesis
    apply (rule exI [of _ ?out], rule exI [of _ "summary_row df k"])
    apply (intro conjI out mem)
    apply (simp_all only: fields joined_def dropna_empty_iff set_dropna)
    done
qed

theorem per_group_reductions_witness:
  "\<exists>out g.
     build_per_mous_table
       \<lparr>columns = [''Source'', ''project_code'', ''band_list'', ''min_freq_GHz'', ''max_freq_GHz'',
                   ''ang_res_arcsec'', ''MOUS_ID'', ''SiO_transition'', ''SiO_freq_GHz''],
        rows = [[''Source'' \<mapsto> Str ''GM Aur'', ''project_code'' \<mapsto> Str ''2018.1.01055.L'',
                 ''band_list'' \<mapsto> Str ''3'', ''min_freq_GHz'' \<mapsto> Flt 80, ''max_freq_GHz'' \<mapsto> Flt 90,
                 ''ang_res_arcsec'' \<mapsto> Flt 0.3, ''MOUS_ID'' \<mapsto> Str ''uid://A001/X1/X2'',
                 ''SiO_transition'' \<mapsto> Str ''J=2-1'', ''SiO_freq_GHz'' \<mapsto> Flt 86.846960],
                [''Source'' \<mapsto> Str ''AS 209'', ''project_code'' \<mapsto> Str ''2018.1.01055.L'',
                 ''band_list'' \<mapsto> Str ''3'', ''min_freq_GHz'' \<mapsto> Flt 85, ''max_freq_GHz'' \<mapsto> Flt 95,
                 ''ang_res_arcsec'' \<mapsto> NaN, ''MOUS_ID'' \<mapsto> Str ''uid://A001/X1/X2'',
                 ''SiO_transition'' \<mapsto> Str ''J=2-1'', ''SiO_freq_GHz'' \<mapsto> Flt 86.846960]]\<rparr> = Inr out
     \<and> g \<in> set (rows out)
     \<and> g ''MOUS_ID'' = Some (Str ''uid://A001/X1/X2'')
     \<and> g ''Source'' = Some (Str ''AS 209, GM Aur'')
     \<and> g ''Project'' = Some (Str ''2018.1.01055.L'')
     \<and> g ''SiO_freqs_GHz'' = Some (Str ''86.84696'')
     \<and> g ''min_freq_GHz'' = Some (Flt 80)
     \<and> g ''max_freq_GHz'' = Some (Flt 95)
     \<and> g ''ang_res_arcsec'' = Some (Flt 0.3)"
proof -
  let ?r1 = "[''Source'' \<mapsto> Str ''GM Aur'', ''project_code'' \<mapsto> Str ''2018.1.01055.L'',
                 ''band_list'' \<mapsto> Str ''3'', ''min_freq_GHz'' \<mapsto> Flt 80, ''max_freq_GHz'' \<mapsto> Flt 90,
                 ''ang_res_arcsec'' \<mapsto> Flt 0.3, ''MOUS_ID'' \<mapsto> Str ''uid://A001/X1/X2'',
                 ''SiO_transition'' \<mapsto> Str ''J=2-1'', ''SiO_freq_GHz'' \<mapsto> Flt 86.846960]"
  let ?r2 = "[''Source'' \<mapsto> Str ''AS 209'', ''project_code'' \<mapsto> Str ''2018.1.01055.L'',
                 ''band_list'' \<mapsto> Str ''3'', ''min_freq_GHz'' \<mapsto> Flt 85, ''max_freq_GHz'' \<mapsto> Flt 95,
                 ''ang_res_arcsec'' \<mapsto> NaN, ''MOUS_ID'' \<mapsto> Str ''uid://A001/X1/X2'',
                 ''SiO_transition'' \<mapsto> Str ''J=2-1'', ''SiO_freq_GHz'' \<mapsto> Flt 86.846960]"
  let ?df = "\<lparr>columns = [''Source'', ''project_code'', ''band_list'', ''min_freq_GHz'', ''max_freq_GHz'',
                   ''ang_res_arcsec'', ''MOUS_ID'', ''SiO_transition'', ''SiO_freq_GHz''],
        rows = [?r1, ?r2]\<rparr>"
  let ?k = "Str ''uid://A001/X1/X2''"
  have s: "summarizable ?df"
    by (simp add: summarizable_def cell_at_def positional_def)
  have k: "?k \<noteq> NaN" "?k \<in> set (column_of ''MOUS_ID'' (rows ?df))"
    by (simp_all add: column_of_def cell_at_def)
  have grp: "group_of ?df ?k = [?r1, ?r2]"
    by (simp add: group_of_def cell_at_def)
  have cols:
    "column_of ''Source'' [?r1, ?r2] = [Str ''GM Aur'', Str ''AS 209'']"
    "column_of ''project_code'' [?r1, ?r2] = [Str ''2018.1.01055.L'', Str ''2018.1.01055.L'']"
    "column_of ''SiO_freq_GHz'' [?r1, ?r2] = [Flt 86.846960, Flt 86.846960]"
    "column_of ''min_freq_GHz'' [?r1, ?r2] = [Flt 80, Flt 85]"
    "column_of ''max_freq_GHz'' [?r1, ?r2] = [Flt 90, Flt 95]"
    "column_of ''ang_res_arcsec'' [?r1, ?r2] = [Flt 0.3, NaN]"
    by (simp_all add: column_of_def cell_at_def)
  have e:
    "join '', '' (sorted_list_of_set (Option.these (cell_str ` set [Str ''GM Aur'', Str ''AS 209'']))) = ''AS 209, GM Aur''"
    "join '', '' (sorted_list_of_set (Option.these (cell_str ` set [Str ''2018.1.01055.L'', Str ''2018.1.01055.L'']))) = ''2018.1.01055.L''"
    "join '', '' (sorted_list_of_set (Option.these (cell_str ` set [Flt 86.846960, Flt 86.846960]))) = ''86.84696''"
    by code_simp+
  have m: "Min (flt_val ` set [Flt 80, Flt 85]) = 80" "Max (flt_val ` set [Flt 90, Flt 95]) = 95"
    "Min (flt_val ` (set [Flt 0.3, NaN] - {NaN})) = 0.3"
    by (simp_all add: insert_Diff_if)
  have n: "\<not> (\<forall>c \<in> set [Flt 0.3, NaN]. c = NaN)" by simp
  from per_group_reductions [OF s k]
  show ?thesis
    unfolding grp cols e m if_not_P [OF n] by blast
qed

text \<open>
  C4.  The per-group summary of a table of MatchRecords (whose joined columns hold no
  missing value) has exactly one row for each distinct \<open>MOUS_ID\<close> of the table and no
  other row: the identifiers of the summary rows are pairwise distinct, and they are the
  identifiers that occur in the table (a missing value is not an identifier).
\<close>

theorem one_row_per_group:
  assumes "summarizable df"
  shows "\<exists>out. build_per_mous_table df = Inr out
           \<and> distinct (column_of ''MOUS_ID'' (rows out))
           \<and> set (column_of ''MOUS_ID'' (rows out)) = set (column_of ''MOUS_ID'' (rows df)) - {NaN}"
proof -
  let ?key = "\<lambda>r. map (\<lambda>c. cell_key (cell_at r c)) [''Source'', ''Project'']"
  let ?rs = "sort_key ?key (map (summary_row df) (group_keys df))"
  have "mset (column_of ''MOUS_ID'' ?rs) = image_mset (\<lambda>r. cell_at r ''MOUS_ID'') (mset ?rs)"
    by (simp add: column_of_def)
  also have "\<dots> = mset (group_keys df)"
    by (simp add: image_mset.compositionality comp_def summary_row_key)
  finally have ms: "mset (column_of ''MOUS_ID'' ?rs) = mset (group_keys df)" .
  have "distinct (column_of ''MOUS_ID'' ?rs)"
    using mset_eq_imp_distinct_iff [OF ms] distinct_group_keys by simp
  moreover have "set (column_of ''MOUS_ID'' ?rs) = set (column_of ''MOUS_ID'' (rows df)) - {NaN}"
    using mset_eq_setD [OF ms] by (simp add: set_group_keys)
  ultimately show ?thesis
    by (simp add: build_per_mous_table_closed [OF assms])
qed

theorem one_row_per_group_witness:
  "\<exists>out.
     build_per_mous_table
       \<lparr>columns = [''Source'', ''project_code'', ''band_list'', ''min_freq_GHz'', ''max_freq_GHz'',
                   ''ang_res_arcsec'', ''MOUS_ID'', ''SiO_transition'', ''SiO_freq_GHz''],
        rows = [[''Source'' \<mapsto> Str ''GM Aur'', ''project_code'' \<mapsto> Str ''2018.1.01055.L'',
                 ''band_list'' \<mapsto> Str ''3'', ''min_freq_GHz'' \<mapsto> Flt 80, ''max_freq_GHz'' \<mapsto> Flt 90,
                 ''ang_res_arcsec'' \<mapsto> Flt 0.3, ''MOUS_ID'' \<mapsto> Str ''uid://A001/X1/X2'',
                 ''SiO_transition'' \<mapsto> Str ''J=2-1'', ''SiO_freq_GHz'' \<mapsto> Flt 86.846960],
                [''Source'' \<mapsto> Str ''AS 209'', ''project_code'' \<mapsto> Str ''2018.1.01055.L'',
                 ''band_list'' \<mapsto> Str ''3'', ''min_freq_GHz'' \<mapsto> Flt 85, ''max_freq_GHz'' \<mapsto> Flt 95,
                 ''ang_res_arcsec'' \<mapsto> NaN, ''MOUS_ID'' \<mapsto> Str ''uid://A001/X1/X3'',
                 ''SiO_transition'' \<mapsto> Str ''J=2-1'', ''SiO_freq_GHz'' \<mapsto> Flt 86.846960],
                [''Source'' \<mapsto> Str ''GM Aur'', ''project_code'' \<mapsto> Str ''2018.1.01055.L'',
                 ''band_list'' \<mapsto> Str ''3'', ''min_freq_GHz'' \<mapsto> Flt 86, ''max_freq_GHz'' \<mapsto> Flt 88,
                 ''ang_res_arcsec'' \<mapsto> Flt 0.3, ''MOUS_ID'' \<mapsto> Str ''uid://A001/X1/X2'',
                 ''SiO_transition'' \<mapsto> Str ''J=2-1'', ''SiO_freq_GHz'' \<mapsto> Flt 86.846960]]\<rparr> = Inr out
     \<and> distinct (column_of ''MOUS_ID'' (rows out))
     \<and> set (column_of ''MOUS_ID'' (rows out)) = {Str ''uid://A001/X1/X2'', Str ''uid://A001/X1/X3''}"
proof -
  let ?df = "\<lparr>columns = [''Source'', ''project_code'', ''band_list'', ''min_freq_GHz'', ''max_freq_GHz'',
                   ''ang_res_arcsec'', ''MOUS_ID'', ''SiO_transition'', ''SiO_freq_GHz''],
        rows = [[''Source'' \<mapsto> Str ''GM Aur'', ''project_code'' \<mapsto> Str ''2018.1.01055.L'',
                 ''band_list'' \<mapsto> Str ''3'', ''min_freq_GHz'' \<mapsto> Flt 80, ''max_freq_GHz'' \<mapsto> Flt 90,
                 ''ang_res_arcsec'' \<mapsto> Flt 0.3, ''MOUS_ID'' \<mapsto> Str ''uid://A001/X1/X2'',
                 ''SiO_transition'' \<mapsto> Str ''J=2-1'', ''SiO_freq_GHz'' \<mapsto> Flt 86.846960],
                [''Source'' \<mapsto> Str ''AS 209'', ''project_code'' \<mapsto> Str ''2018.1.01055.L'',
                 ''band_list'' \<mapsto> Str ''3'', ''min_freq_GHz'' \<mapsto> Flt 85, ''max_freq_GHz'' \<mapsto> Flt 95,
                 ''ang_res_arcsec'' \<mapsto> NaN, ''MOUS_ID'' \<mapsto> Str ''uid://A001/X1/X3'',
                 ''SiO_transition'' \<mapsto> Str ''J=2-1'', ''SiO_freq_GHz'' \<mapsto> Flt 86.846960],
                [''Source'' \<mapsto> Str ''GM Aur'', ''project_code'' \<mapsto> Str ''2018.1.01055.L'',
                 ''band_list'' \<mapsto> Str ''3'', ''min_freq_GHz'' \<mapsto> Flt 86, ''max_freq_GHz'' \<mapsto> Flt 88,
                 ''ang_res_arcsec'' \<mapsto> Flt 0.3, ''MOUS_ID'' \<mapsto> Str ''uid://A001/X1/X2'',
                 ''SiO_transition'' \<mapsto> Str ''J=2-1'', ''SiO_freq_GHz'' \<mapsto> Flt 86.846960]]\<rparr>"
  have s: "summarizable ?df"
    by (simp add: summarizable_def cell_at_def positional_def)
  have ids: "set (column_of ''MOUS_ID'' (rows ?df)) - {NaN}
               = {Str ''uid://A001/X1/X2'', Str ''uid://A001/X1/X3''}"
    by (auto simp: column_of_def cell_at_def)
  from one_row_per_group [OF s] show ?thesis
    unfolding ids .
qed

text \<open>
  C10.  In every row of the per-group summary of a table of MatchRecords (whose joined
  columns hold no missing value), each of the five joined fields, \<open>SiO_freqs_GHz\<close>
  included, is the comma-joined list of the string representations of the group's
  values, duplicate-free and sorted in the order of strings.  Transition frequencies are
  therefore ordered as decimal strings and not as numbers: in the summary of a group
  that covers 43.423864 and 130.268610 GHz the field \<open>SiO_freqs_GHz\<close> reads
  \<open>130.26861, 43.423864\<close>, which is not ascending numerically.
\<close>

theorem joined_fields_in_string_order:
  assumes "summarizable df"
  shows "(\<exists>out. build_per_mous_table df = Inr out
            \<and> (\<forall>g \<in> set (rows out).
                 \<forall>(f, c) \<in> set [(''Source'', ''Source''), (''Project'', ''project_code''),
                                 (''ALMA_Band'', ''band_list''),
                                 (''SiO_transitions'', ''SiO_transition''),
                                 (''SiO_freqs_GHz'', ''SiO_freq_GHz'')].
                   \<exists>xs. g f = Some (Str (join '', '' xs)) \<and> sorted xs \<and> distinct xs
                        \<and> Some ` set xs
                            = cell_str ` set (column_of c (group_of df (cell_at g ''MOUS_ID'')))))
   \<and> (43.423864 :: rat) < 130.268610
   \<and> ''130.26861'' < ''43.423864''
   \<and> (case find_sio_spw_matches
           \<lparr>columns = [''Source'', ''project_code'', ''band_list'', ''min_freq_GHz'', ''max_freq_GHz'',
                       ''ang_res_arcsec'', ''MOUS_ID''],
            rows = [[''Source'' \<mapsto> Str ''AS 209'', ''project_code'' \<mapsto> Str ''2018.1.01055.L'',
                     ''band_list'' \<mapsto> Str ''1'', ''min_freq_GHz'' \<mapsto> Flt 43, ''max_freq_GHz'' \<mapsto> Flt 44,
                     ''ang_res_arcsec'' \<mapsto> Flt 0.3, ''MOUS_ID'' \<mapsto> Str ''uid://A001/X1/X2''],
                    [''Source'' \<mapsto> Str ''AS 209'', ''project_code'' \<mapsto> Str ''2018.1.01055.L'',
                     ''band_list'' \<mapsto> Str ''4'', ''min_freq_GHz'' \<mapsto> Flt 130, ''max_freq_GHz'' \<mapsto> Flt 131,
                     ''ang_res_arcsec'' \<mapsto> Flt 0.3, ''MOUS_ID'' \<mapsto> Str ''uid://A001/X1/X2'']]\<rparr> of
      Inl e \<Rightarrow> False
    | Inr m \<Rightarrow>
        (case build_per_mous_table m of
           Inl e \<Rightarrow> False
         | Inr out \<Rightarrow> map (\<lambda>g. g ''SiO_freqs_GHz'') (rows out) = [Some (Str ''130.26861, 43.423864'')]))"
proof -
  let ?key = "\<lambda>r. map (\<lambda>c. cell_key (cell_at r c)) [''Source'', ''Project'']"
  let ?out = "\<lparr>columns = [''MOUS_ID'', ''Source'', ''Project'', ''ALMA_Band'', ''min_freq_GHz'',
                            ''max_freq_GHz'', ''SiO_transitions'', ''SiO_freqs_GHz'', ''ang_res_arcsec''],
                 rows = sort_key ?key (map (summary_row df) (group_keys df))\<rparr>"
  let ?fields = "[(''Source'', ''Source''), (''Project'', ''project_code''),
                  (''ALMA_Band'', ''band_list''), (''SiO_transitions'', ''SiO_transition''),
                  (''SiO_freqs_GHz'', ''SiO_freq_GHz'')]"
  have out: "build_per_mous_table df = Inr ?out"
    by (rule build_per_mous_table_closed [OF assms])
  have present: "NaN \<notin> set (column_of c (group_of df k))"
    if "c \<in> {''Source'', ''project_code'', ''band_list'', ''SiO_transition'', ''SiO_freq_GHz''}" for c k
  proof -
    have "NaN \<noteq> cell_at r c" if "r \<in> set (rows df)" for r
    proof (rule not_sym, rule printable_present)
      show "printable (cell_at r c)"
        using assms that \<open>c \<in> _\<close> by (auto simp: summarizable_def)
    qed
    then show ?thesis
      by (auto simp: column_of_def group_of_def)
  qed
  have row: "case p of (f, c) \<Rightarrow>
                 \<exists>xs. g f = Some (Str (join '', '' xs)) \<and> sorted xs \<and> distinct xs
                   \<and> Some ` set xs = cell_str ` set (column_of c (group_of df (cell_at g ''MOUS_ID'')))"
    if g: "g \<in> set (rows ?out)" and p: "p \<in> set ?fields" for g p
  proof -
    obtain f c where fc: "p = (f, c)" by (cases p)
    from g have "g \<in> summary_row df ` set (group_keys df)"
      by simp
    then obtain k where gk: "g = summary_row df k"
      by (rule imageE)
    have key: "cell_at g ''MOUS_ID'' = k"
      unfolding gk by (rule summary_row_key)
    from p have cases: "(f, c) = (''Source'', ''Source'') \<or> (f, c) = (''Project'', ''project_code'')
        \<or> (f, c) = (''ALMA_Band'', ''band_list'') \<or> (f, c) = (''SiO_transitions'', ''SiO_transition'')
        \<or> (f, c) = (''SiO_freqs_GHz'', ''SiO_freq_GHz'')"
      unfolding fc by simp
    then have c: "c \<in> {''Source'', ''project_code'', ''band_list'', ''SiO_transition'', ''SiO_freq_GHz''}"
      by fastforce
    have field: "g f = Some (joined (column_of c (group_of df k)))"
      using cases unfolding gk summary_row_def Let_def by (elim disjE) simp_all
    from joined_as_strings [OF present [OF c, of k]] obtain xs
      where xs: "joined (column_of c (group_of df k)) = Str (join '', '' xs)" "sorted xs" "distinct xs"
        "Some ` set xs = cell_str ` set (column_of c (group_of df k))"
      by (elim exE conjE)
    have "g f = Some (Str (join '', '' xs))"
      unfolding field xs(1) by (rule refl)
    then have "\<exists>xs. g f = Some (Str (join '', '' xs)) \<and> sorted xs \<and> distinct xs
                   \<and> Some ` set xs = cell_str ` set (column_of c (group_of df (cell_at g ''MOUS_ID'')))"
      unfolding key using xs(2) xs(3) xs(4) by (intro exI [of _ xs] conjI)
    then show ?thesis
      unfolding fc by simp
  qed
  have general: "\<exists>out. build_per_mous_table df = Inr out
            \<and> (\<forall>g \<in> set (rows out). \<forall>(f, c) \<in> set ?fields.
                   \<exists>xs. g f = Some (Str (join '', '' xs)) \<and> sorted xs \<and> distinct xs
                        \<and> Some ` set xs
                            = cell_str ` set (column_of c (group_of df (cell_at g ''MOUS_ID''))))"
    using out row by (intro exI [of _ ?out] conjI ballI)
  have numeric: "(43.423864 :: rat) < 130.268610"
    by simp
  have textual: "''130.26861'' < ''43.423864''"
    by simp
  have example: "(case find_sio_spw_matches
           \<lparr>columns = [''Source'', ''project_code'', ''band_list'', ''min_freq_GHz'', ''max_freq_GHz'',
                       ''ang_res_arcsec'', ''MOUS_ID''],
            rows = [[''Source'' \<mapsto> Str ''AS 209'', ''project_code'' \<mapsto> Str ''2018.1.01055.L'',
                     ''band_list'' \<mapsto> Str ''1'', ''min_freq_GHz'' \<mapsto> Flt 43, ''max_freq_GHz'' \<mapsto> Flt 44,
                     ''ang_res_arcsec'' \<mapsto> Flt 0.3, ''MOUS_ID'' \<mapsto> Str ''uid://A001/X1/X2''],
                    [''Source'' \<mapsto> Str ''AS 209'', ''project_code'' \<mapsto> Str ''2018.1.01055.L'',
                     ''band_list'' \<mapsto> Str ''4'', ''min_freq_GHz'' \<mapsto> Flt 130, ''max_freq_GHz'' \<mapsto> Flt 131,
                     ''ang_res_arcsec'' \<mapsto> Flt 0.3, ''MOUS_ID'' \<mapsto> Str ''uid://A001/X1/X2'']]\<rparr> of
      Inl e \<Rightarrow> False
    | Inr m \<Rightarrow>
        (case build_per_mous_table m of
           Inl e \<Rightarrow> False
         | Inr out \<Rightarrow> map (\<lambda>g. g ''SiO_freqs_GHz'') (rows out) = [Some (Str ''130.26861, 43.423864'')]))"
    by code_simp
  from general numeric textual example show ?thesis
    by (intro conjI)
qed

theorem joined_fields_in_string_order_witness:
  "\<exists>out.
     build_per_mous_table
       \<lparr>columns = [''Source'', ''project_code'', ''band_list'', ''min_freq_GHz'', ''max_freq_GHz'',
                   ''ang_res_arcsec'', ''MOUS_ID'', ''SiO_transition'', ''SiO_freq_GHz''],
        rows = [[''Source'' \<mapsto> Str ''AS 209'', ''project_code'' \<mapsto> Str ''2018.1.01055.L'',
                 ''band_list'' \<mapsto> Str ''1'', ''min_freq_GHz'' \<mapsto> Flt 43, ''max_freq_GHz'' \<mapsto> Flt 44,
                 ''ang_res_arcsec'' \<mapsto> Flt 0.3, ''MOUS_ID'' \<mapsto> Str ''uid://A001/X1/X2'',
                 ''SiO_transition'' \<mapsto> Str ''J=1-0'', ''SiO_freq_GHz'' \<mapsto> Flt 43.423864],
                [''Source'' \<mapsto> Str ''AS 209'', ''project_code'' \<mapsto> Str ''2018.1.01055.L'',
                 ''band_list'' \<mapsto> Str ''4'', ''min_freq_GHz'' \<mapsto> Flt 130, ''max_freq_GHz'' \<mapsto> Flt 131,
                 ''ang_res_arcsec'' \<mapsto> Flt 0.3, ''MOUS_ID'' \<mapsto> Str ''uid://A001/X1/X2'',
                 ''SiO_transition'' \<mapsto> Str ''J=3-2'', ''SiO_freq_GHz'' \<mapsto> Flt 130.268610]]\<rparr> = Inr out
     \<and> (\<forall>g \<in> set (rows out).
           \<exists>xs. g ''SiO_freqs_GHz'' = Some (Str (join '', '' xs)) \<and> sorted xs \<and> distinct xs
                \<and> Some ` set xs = {Some ''43.423864'', Some ''130.26861''})"
proof -
  let ?r1 = "[''Source'' \<mapsto> Str ''AS 209'', ''project_code'' \<mapsto> Str ''2018.1.01055.L'',
                 ''band_list'' \<mapsto> Str ''1'', ''min_freq_GHz'' \<mapsto> Flt 43, ''max_freq_GHz'' \<mapsto> Flt 44,
                 ''ang_res_arcsec'' \<mapsto> Flt 0.3, ''MOUS_ID'' \<mapsto> Str ''uid://A001/X1/X2'',
                 ''SiO_transition'' \<mapsto> Str ''J=1-0'', ''SiO_freq_GHz'' \<mapsto> Flt 43.423864]"
  let ?r2 = "[''Source'' \<mapsto> Str ''AS 209'', ''project_code'' \<mapsto> Str ''2018.1.01055.L'',
                 ''band_list'' \<mapsto> Str ''4'', ''min_freq_GHz'' \<mapsto> Flt 130, ''max_freq_GHz'' \<mapsto> Flt 131,
                 ''ang_res_arcsec'' \<mapsto> Flt 0.3, ''MOUS_ID'' \<mapsto> Str ''uid://A001/X1/X2'',
                 ''SiO_transition'' \<mapsto> Str ''J=3-2'', ''SiO_freq_GHz'' \<mapsto> Flt 130.268610]"
  let ?df = "\<lparr>columns = [''Source'', ''project_code'', ''band_list'', ''min_freq_GHz'', ''max_freq_GHz'',
                   ''ang_res_arcsec'', ''MOUS_ID'', ''SiO_transition'', ''SiO_freq_GHz''],
        rows = [?r1, ?r2]\<rparr>"
  have s: "summarizable ?df"
    by (simp add: summarizable_def cell_at_def positional_def)
  from joined_fields_in_string_order [OF s, THEN conjunct1] obtain out
    where out: "build_per_mous_table ?df = Inr out"
      and rows: "\<forall>g \<in> set (rows out).
                 \<forall>(f, c) \<in> set [(''Source'', ''Source''), (''Project'', ''project_code''),
                                 (''ALMA_Band'', ''band_list''),
                                 (''SiO_transitions'', ''SiO_transition''),
                                 (''SiO_freqs_GHz'', ''SiO_freq_GHz'')].
                   \<exists>xs. g f = Some (Str (join '', '' xs)) \<and> sorted xs \<and> distinct xs
                        \<and> Some ` set xs
                            = cell_str ` set (column_of c (group_of ?df (cell_at g ''MOUS_ID'')))"
    by (elim exE conjE)
  have keys: "cell_at g ''MOUS_ID'' = Str ''uid://A001/X1/X2''" if "g \<in> set (rows out)" for g
    using summary_row_ids [OF s out that] by (simp add: column_of_def cell_at_def)
  have grp: "group_of ?df (Str ''uid://A001/X1/X2'') = [?r1, ?r2]"
    by (simp add: group_of_def cell_at_def)
  have col: "column_of ''SiO_freq_GHz'' [?r1, ?r2] = [Flt 43.423864, Flt 130.268610]"
    by (simp add: column_of_def cell_at_def)
  have strs: "float_str 43.423864 = ''43.423864''" "float_str 130.268610 = ''130.26861''"
    by code_simp+
  have img: "cell_str ` set [Flt 43.423864, Flt 130.268610] = {Some ''43.423864'', Some ''130.26861''}"
    by code_simp
  have "\<exists>xs. g ''SiO_freqs_GHz'' = Some (Str (join '', '' xs)) \<and> sorted xs \<and> distinct xs
                \<and> Some ` set xs = {Some ''43.423864'', Some ''130.26861''}"
    if "g \<in> set (rows out)" for g
  proof -
    from rows that have "\<forall>(f, c) \<in> set [(''Source'', ''Source''), (''Project'', ''project_code''),
                                 (''ALMA_Band'', ''band_list''),
                                 (''SiO_transitions'', ''SiO_transition''),
                                 (''SiO_freqs_GHz'', ''SiO_freq_GHz'')].
                   \<exists>xs. g f = Some (Str (join '', '' xs)) \<and> sorted xs \<and> distinct xs
                        \<and> Some ` set xs
                            = cell_str ` set (column_of c (group_of ?df (cell_at g ''MOUS_ID'')))"
      by (rule bspec)
    then have "\<exists>xs. g ''SiO_freqs_GHz'' = Some (Str (join '', '' xs)) \<and> sorted xs \<and> distinct xs
                        \<and> Some ` set xs
                            = cell_str ` set (column_of ''SiO_freq_GHz'' (group_of ?df (cell_at g ''MOUS_ID'')))"
      by simp
    then show ?thesis
      by (simp only: keys [OF that] grp col img)
  qed
  with out show ?thesis by (intro exI [of _ out] conjI ballI)
qed

section \<open>Properties of the per-SPW builder\<close>

text \<open>
  When the four sort keys are columns of the input, the builder succeeds: its columns
  are the columns of the fixed set that the input has, renamed, and its rows are sorted
  ascending by the four keys.
\<close>

lemma map_of_renamed:
  assumes "inj_on f (set xs)" "c \<in> set xs"
  shows "map_of (map (\<lambda>c. (f c, g c)) xs) (f c) = Some (g c)"
  using assms by (induction xs) (auto simp: inj_on_def)

lemma rename_col_inj:
  "inj_on (rename_col [(''project_code'', ''Project''), (''band_list'', ''ALMA_Band'')])
          (set [''Source'', ''project_code'', ''band_list'', ''min_freq_GHz'', ''max_freq_GHz'',
                ''SiO_transition'', ''SiO_freq_GHz'', ''ang_res_arcsec'', ''MOUS_ID''])"
  by (simp add: rename_col_def)

lemma per_spw_table_with_sort_keys:
  assumes keys: "{''Source'', ''project_code'', ''band_list'', ''SiO_freq_GHz''} \<subseteq> set (columns df)"
  shows "\<exists>out. build_per_spw_table df = Inr out
           \<and> columns out =
               map (rename_col [(''project_code'', ''Project''), (''band_list'', ''ALMA_Band'')])
                 (filter (\<lambda>c. c \<in> set (columns df))
                    [''Source'', ''project_code'', ''band_list'', ''min_freq_GHz'', ''max_freq_GHz'',
                     ''SiO_transition'', ''SiO_freq_GHz'', ''ang_res_arcsec'', ''MOUS_ID''])
           \<and> sorted (map spw_sort_key (rows out))
           \<and> length (rows out) = length (rows df)"
proof -
  let ?KEEP = "[''Source'', ''project_code'', ''band_list'', ''min_freq_GHz'', ''max_freq_GHz'',
                ''SiO_transition'', ''SiO_freq_GHz'', ''ang_res_arcsec'', ''MOUS_ID'']"
  let ?m = "[(''project_code'', ''Project''), (''band_list'', ''ALMA_Band'')]"
  let ?by = "[''Source'', ''Project'', ''ALMA_Band'', ''SiO_freq_GHz'']"
  define keep where "keep = filter (\<lambda>c. c \<in> set (columns df)) ?KEEP"
  define ren where
    "ren = (\<lambda>r :: row. map_of (map (\<lambda>c. (rename_col ?m c, cell_at (r |` set keep) c)) keep))"
  define spw where "spw = \<lparr>columns = map (rename_col ?m) keep, rows = map ren (rows df)\<rparr>"
  have sub: "set keep \<subseteq> set ?KEEP"
    unfolding keep_def by (rule filter_is_subset)
  have kept: "''Source'' \<in> set keep" "''project_code'' \<in> set keep"
    "''band_list'' \<in> set keep" "''SiO_freq_GHz'' \<in> set keep"
    using keys unfolding keep_def set_filter by simp_all
  have spw: "rename (select_columns df keep) ?m = spw"
    unfolding rename_def select_columns_def spw_def ren_def by (simp add: comp_def)
  have inj: "inj_on (rename_col ?m) (set keep)"
    by (rule inj_on_subset [OF rename_col_inj sub])
  have cell: "cell_at (ren r) (rename_col ?m c) = cell_at r c" if "c \<in> set keep" for r c
  proof -
    have "ren r (rename_col ?m c) = Some (cell_at (r |` set keep) c)"
      unfolding ren_def by (rule map_of_renamed [OF inj that])
    moreover have "cell_at (r |` set keep) c = cell_at r c"
      using that by (simp add: cell_at_def)
    ultimately show ?thesis by (simp add: cell_at_def)
  qed
  have names: "rename_col ?m ''Source'' = ''Source''" "rename_col ?m ''project_code'' = ''Project''"
    "rename_col ?m ''band_list'' = ''ALMA_Band''" "rename_col ?m ''SiO_freq_GHz'' = ''SiO_freq_GHz''"
    by (simp_all add: rename_col_def)
  have cells: "cell_at (ren r) ''Source'' = cell_at r ''Source''"
    "cell_at (ren r) ''Project'' = cell_at r ''project_code''"
    "cell_at (ren r) ''ALMA_Band'' = cell_at r ''band_list''"
    "cell_at (ren r) ''SiO_freq_GHz'' = cell_at r ''SiO_freq_GHz''" for r
    using cell [OF kept(1), of r] cell [OF kept(2), of r] cell [OF kept(3), of r] cell [OF kept(4), of r]
    unfolding names by - assumption+
  have incl: "rename_col ?m c \<in> set (columns spw)" if "c \<in> set keep" for c
    using that unfolding spw_def by simp
  have present: "find (\<lambda>k. k \<notin> set (columns spw)) ?by = None"
    using incl [OF kept(1)] incl [OF kept(2)] incl [OF kept(3)] incl [OF kept(4)]
    unfolding names by simp
  have "sort_values spw ?by =
          Inr \<lparr>columns = columns spw,
                rows = sort_key (\<lambda>r. map (\<lambda>k. cell_key (cell_at r k)) ?by) (rows spw)\<rparr>"
    unfolding sort_values_def by (simp only: present option.case)
  then have res: "build_per_spw_table df =
          Inr \<lparr>columns = columns spw, rows = sort_key spw_sort_key (rows spw)\<rparr>"
    unfolding build_per_spw_table_def Let_def keep_def [symmetric] spw spw_sort_key_def [abs_def] .
  show ?thesis
  proof (intro exI conjI)
    show "build_per_spw_table df = Inr \<lparr>columns = columns spw, rows = sort_key spw_sort_key (rows spw)\<rparr>"
      by (rule res)
    show "columns \<lparr>columns = columns spw, rows = sort_key spw_sort_key (rows spw)\<rparr>
            = map (rename_col ?m) (filter (\<lambda>c. c \<in> set (columns df)) ?KEEP)"
      unfolding spw_def keep_def by simp
    show "sorted (map spw_sort_key (rows \<lparr>columns = columns spw, rows = sort_key spw_sort_key (rows spw)\<rparr>))"
      by (simp add: sorted_sort_key)
    show "length (rows \<lparr>columns = columns spw, rows = sort_key spw_sort_key (rows spw)\<rparr>) = length (rows df)"
      by (simp add: spw_def)
  qed
qed

text \<open>
  C5.  The per-SPW builder drops the columns of its fixed column set that the input
  lacks, but it then sorts by the four fixed keys \<open>Source\<close>, \<open>Project\<close>, \<open>ALMA_Band\<close> and
  \<open>SiO_freq_GHz\<close>.  An archive table with neither \<open>band_list\<close> nor \<open>band\<close> passes the
  harmonizer and the matcher, its match table has no \<open>band_list\<close> column, and the
  builder fails on it with \<open>KeyError\<close> for \<open>ALMA_Band\<close> instead of omitting the column.
\<close>

theorem per_spw_table_missing_band:
  "(case harmonize_columns
           \<lparr>columns = [''Source'', ''project_code'', ''min_freq_GHz'', ''max_freq_GHz'',
                       ''best_ang_res'', ''member_ous_uid''],
            rows = [[''Source'' \<mapsto> Str ''AS 209'', ''project_code'' \<mapsto> Str ''2018.1.01055.L'',
                     ''min_freq_GHz'' \<mapsto> Flt 86, ''max_freq_GHz'' \<mapsto> Flt 87,
                     ''best_ang_res'' \<mapsto> Flt 0.3, ''member_ous_uid'' \<mapsto> Str ''uid://A001/X1/X2'']]\<rparr> of
      Inl e \<Rightarrow> False
    | Inr obs \<Rightarrow>
        (case find_sio_spw_matches obs of
           Inl e \<Rightarrow> False
         | Inr m \<Rightarrow>
             \<not> is_empty m \<and> ''band_list'' \<notin> set (columns m)
             \<and> (case build_per_spw_table m of
                    Inl e \<Rightarrow> e = KeyError ''ALMA_Band''
                  | Inr spw \<Rightarrow> False)))"
  by code_simp

end
